theory Spec2Isabelle
  imports Main "HOL-Library.Sublist"
begin

section \<open>Python values, exceptions and strings\<close>

text \<open>
  The program is \<^verbatim>\<open>describe_csv.py\<close>. A Python \<^verbatim>\<open>str\<close> is modelled as a
  \<^typ>\<open>string\<close> whose characters are the code points below 256; on that range the
  whitespace class and the case folding below are exactly Python's. The values the
  program handles dynamically (what \<^verbatim>\<open>pickle.load\<close> returns, the nested
  dictionaries it builds) are values of \<open>pyval\<close>; a dictionary is an association
  list in insertion order.
\<close>

datatype pyval =
    PNone
  | PStr string
  | PInt int
  | PList "pyval list"
  | PDict "(string \<times> pyval) list"

text \<open>
  Every exception of the model is a subclass of \<^verbatim>\<open>Exception\<close>, so both
  \<^verbatim>\<open>except Exception\<close> clauses of the program catch it. The string is
  \<^verbatim>\<open>str(e)\<close>, which the fallback text embeds.
\<close>

datatype error =
    OSError string
  | UnpicklingError string
  | EOFError string
  | TypeError string
  | AttributeError string
  | ChatError string
  | ReadError string

fun str_of_error :: "error \<Rightarrow> string" where
  "str_of_error (OSError m) = m"
| "str_of_error (UnpicklingError m) = m"
| "str_of_error (EOFError m) = m"
| "str_of_error (TypeError m) = m"
| "str_of_error (AttributeError m) = m"
| "str_of_error (ChatError m) = m"
| "str_of_error (ReadError m) = m"

text \<open>Truth value testing, as \<^verbatim>\<open>if cached_response:\<close> applies it.\<close>

fun truthy :: "pyval \<Rightarrow> bool" where
  "truthy PNone = False"
| "truthy (PStr s) = (s \<noteq> [])"
| "truthy (PInt i) = (i \<noteq> 0)"
| "truthy (PList xs) = (xs \<noteq> [])"
| "truthy (PDict kvs) = (kvs \<noteq> [])"

text \<open>
  \<^verbatim>\<open>str.isspace\<close> on one character, which is also the class \<^verbatim>\<open>\s\<close> of
  \<^verbatim>\<open>re\<close> on a \<^verbatim>\<open>str\<close> pattern: TAB to CR, FS to US, space, NEL and
  NBSP.
\<close>

definition py_isspace :: "char \<Rightarrow> bool" where
  "py_isspace c =
     (let n = (of_char c :: nat)
      in (9 \<le> n \<and> n \<le> 13) \<or> (28 \<le> n \<and> n \<le> 32) \<or> n = 133 \<or> n = 160)"

text \<open>
  Case folding for \<^verbatim>\<open>re.IGNORECASE\<close>: every letter of the four patterns is an
  ASCII letter, and below 256 only its own upper and lower case match it.
\<close>

definition ascii_lower :: "char \<Rightarrow> char" where
  "ascii_lower c =
     (let n = (of_char c :: nat)
      in if 65 \<le> n \<and> n \<le> 90 then char_of (n + 32) else c)"

text \<open>\<^verbatim>\<open>str.strip()\<close> with no argument.\<close>

definition strip :: "string \<Rightarrow> string" where
  "strip s = rev (dropWhile py_isspace (rev (dropWhile py_isspace s)))"

fun join :: "string \<Rightarrow> string list \<Rightarrow> string" where
  "join sep [] = []"
| "join sep [x] = x"
| "join sep (x # y # ys) = x @ sep @ join sep (y # ys)"

section \<open>Regular expressions, as \<^verbatim>\<open>re.search\<close> runs them\<close>

text \<open>
  The fragment of \<^verbatim>\<open>re\<close> that the four patterns of
  \<^verbatim>\<open>_parse_markdown_description\<close> use, under the flags
  \<^verbatim>\<open>re.DOTALL | re.IGNORECASE\<close>:
  \<^item> \<open>Lit\<close>: literal text, compared case-insensitively;
  \<^item> \<open>Space_star\<close>: \<^verbatim>\<open>\s*\<close>, greedy;
  \<^item> \<open>Group_lazy_any\<close>: \<^verbatim>\<open>(.*?)\<close>, group 1, lazy, the dot matching newlines too;
  \<^item> \<open>Eos\<close>: \<^verbatim>\<open>$\<close> without \<^verbatim>\<open>re.MULTILINE\<close>: the end of the string, or just
    before a newline that ends the string;
  \<^item> \<open>Alt\<close>, \<open>Seq\<close>: alternation (left first) and concatenation;
  \<^item> \<open>Lookahead\<close>: \<^verbatim>\<open>(?=...)\<close>.

  The matcher is a backtracking matcher in continuation-passing style: the state is the
  text still to read and the capture of group 1, and the continuation is the rest of
  the pattern. A quantifier tries its choices in Python's order and moves to the next
  one when the continuation fails.
\<close>

datatype regex =
    Lit string
  | Space_star
  | Group_lazy_any
  | Eos
  | Alt regex regex
  | Seq regex regex
  | Lookahead regex

type_synonym mstate = "string \<times> string option"

fun lit_prefix :: "string \<Rightarrow> string \<Rightarrow> string option" where
  "lit_prefix [] s = Some s"
| "lit_prefix (p # ps) [] = None"
| "lit_prefix (p # ps) (c # cs) =
     (if ascii_lower p = ascii_lower c then lit_prefix ps cs else None)"

fun greedy_space :: "string \<Rightarrow> (string \<Rightarrow> mstate option) \<Rightarrow> mstate option" where
  "greedy_space [] k = k []"
| "greedy_space (c # cs) k =
     (if py_isspace c
      then (case greedy_space cs k of Some m \<Rightarrow> Some m | None \<Rightarrow> k (c # cs))
      else k (c # cs))"

fun lazy_any :: "string \<Rightarrow> string \<Rightarrow> (string \<Rightarrow> string \<Rightarrow> mstate option) \<Rightarrow> mstate option" where
  "lazy_any acc [] k = k acc []"
| "lazy_any acc (c # cs) k =
     (case k acc (c # cs) of Some m \<Rightarrow> Some m | None \<Rightarrow> lazy_any (acc @ [c]) cs k)"

fun rmatch :: "regex \<Rightarrow> mstate \<Rightarrow> (mstate \<Rightarrow> mstate option) \<Rightarrow> mstate option" where
  "rmatch (Lit l) (s, g) k = (case lit_prefix l s of Some r \<Rightarrow> k (r, g) | None \<Rightarrow> None)"
| "rmatch Space_star (s, g) k = greedy_space s (\<lambda>r. k (r, g))"
| "rmatch Group_lazy_any (s, g) k = lazy_any [] s (\<lambda>cap r. k (r, Some cap))"
| "rmatch Eos (s, g) k = (if s = [] \<or> s = ''\<newline>'' then k (s, g) else None)"
| "rmatch (Alt a b) st k = (case rmatch a st k of Some m \<Rightarrow> Some m | None \<Rightarrow> rmatch b st k)"
| "rmatch (Seq a b) st k = rmatch a st (\<lambda>st'. rmatch b st' k)"
| "rmatch (Lookahead a) (s, g) k =
     (case rmatch a (s, g) Some of Some m \<Rightarrow> k (s, g) | None \<Rightarrow> None)"

text \<open>
  \<^verbatim>\<open>re.search\<close>: the match at the leftmost position of the text where the pattern
  matches. The patterns look only forward, so the text from the position on decides.
\<close>

fun re_search :: "regex \<Rightarrow> string \<Rightarrow> mstate option" where
  "re_search r [] = rmatch r ([], None) Some"
| "re_search r (c # cs) =
     (case rmatch r (c # cs, None) Some of Some m \<Rightarrow> Some m | None \<Rightarrow> re_search r cs)"

section \<open>\<^verbatim>\<open>_parse_markdown_description\<close>\<close>

text \<open>The common tail \<^verbatim>\<open>\s*(.*?)(?=\n-|\n\n|$)\<close> of the four patterns.\<close>

definition section_tail :: regex where
  "section_tail =
     Seq Space_star (Seq Group_lazy_any
       (Lookahead (Alt (Lit ''\<newline>-'') (Alt (Lit ''\<newline>\<newline>'') Eos))))"

definition patterns :: "(string \<times> regex) list" where
  "patterns =
     [(''business_purpose'', Seq (Lit ''**Business Purpose**:'') section_tail),
      (''data_quality_rules'', Seq (Lit ''**Data Quality Rules**:'') section_tail),
      (''example_usage'', Seq (Lit ''**Example Usage**:'') section_tail),
      (''issues'',
         Seq (Lit ''**'')
           (Seq (Alt (Lit ''Known Issues/Limitations'') (Lit ''Issues''))
             (Seq (Lit ''**:'') section_tail)))]"

text \<open>
  The loop over \<^verbatim>\<open>patterns.items()\<close>. A match whose group 1 did not take part
  would make \<^verbatim>\<open>match.group(1)\<close> \<^verbatim>\<open>None\<close> and \<^verbatim>\<open>.strip()\<close> raise.
\<close>

fun parse_items :: "(string \<times> regex) list \<Rightarrow> string \<Rightarrow> error + (string \<times> pyval) list" where
  "parse_items [] description = Inr []"
| "parse_items ((key, pattern) # rest) description =
     (case (case re_search pattern description of
              None \<Rightarrow> Inr ''N/A''
            | Some (r, None) \<Rightarrow> Inl (AttributeError ''NoneType object has no attribute strip'')
            | Some (r, Some g) \<Rightarrow> Inr (strip g)) of
        Inl e \<Rightarrow> Inl e
      | Inr v \<Rightarrow>
          (case parse_items rest description of
             Inl e \<Rightarrow> Inl e
           | Inr result \<Rightarrow> Inr ((key, PStr v) # result)))"

text \<open>\<^verbatim>\<open>re.search\<close> raises \<^verbatim>\<open>TypeError\<close> on a value that is not a string.\<close>

fun parse_markdown_description :: "pyval \<Rightarrow> error + pyval" where
  "parse_markdown_description (PStr description) =
     (case parse_items patterns description of
        Inl e \<Rightarrow> Inl e
      | Inr result \<Rightarrow> Inr (PDict result))"
| "parse_markdown_description v = Inl (TypeError ''expected string or bytes-like object'')"

section \<open>What a section pattern extracts\<close>

text \<open>
  The meaning of the patterns without the matcher: the text after the leftmost label,
  with the whitespace after the colon skipped, up to the first section boundary (a
  newline followed by a dash, a blank line, the end of the text or its final newline).
\<close>

fun at_boundary :: "string \<Rightarrow> bool" where
  "at_boundary [] = True"
| "at_boundary [c] = (c = CHR ''\<newline>'')"
| "at_boundary (c # d # cs) = (c = CHR ''\<newline>'' \<and> (d = CHR ''-'' \<or> d = CHR ''\<newline>''))"

fun lazy_capture :: "string \<Rightarrow> string" where
  "lazy_capture [] = []"
| "lazy_capture (c # cs) = (if at_boundary (c # cs) then [] else c # lazy_capture cs)"

definition section_capture :: "string \<Rightarrow> string" where
  "section_capture rest = lazy_capture (dropWhile py_isspace rest)"

fun label_at :: "string list \<Rightarrow> string \<Rightarrow> string option" where
  "label_at [] s = None"
| "label_at (l # ls) s =
     (case lit_prefix l s of Some rest \<Rightarrow> Some rest | None \<Rightarrow> label_at ls s)"

fun find_label :: "string list \<Rightarrow> string \<Rightarrow> string option" where
  "find_label ls [] = label_at ls []"
| "find_label ls (c # cs) =
     (case label_at ls (c # cs) of Some rest \<Rightarrow> Some rest | None \<Rightarrow> find_label ls cs)"

definition section_value :: "string list \<Rightarrow> string \<Rightarrow> string" where
  "section_value ls d =
     (case find_label ls d of
        None \<Rightarrow> ''N/A''
      | Some rest \<Rightarrow> strip (section_capture rest))"

text \<open>A label occurs in a text when some suffix of the text starts with it, in any case.\<close>

definition label_occurs :: "string list \<Rightarrow> string \<Rightarrow> bool" where
  "label_occurs ls d = (\<exists>suf \<in> set (suffixes d). \<exists>l \<in> set ls. lit_prefix l suf \<noteq> None)"

definition trimmed :: "string \<Rightarrow> bool" where
  "trimmed v = (v = [] \<or> (\<not> py_isspace (hd v) \<and> \<not> py_isspace (last v)))"

definition business_purpose_labels :: "string list" where
  "business_purpose_labels = [''**Business Purpose**:'']"

definition data_quality_rules_labels :: "string list" where
  "data_quality_rules_labels = [''**Data Quality Rules**:'']"

definition example_usage_labels :: "string list" where
  "example_usage_labels = [''**Example Usage**:'']"

definition issues_labels :: "string list" where
  "issues_labels = [''**Known Issues/Limitations**:'', ''**Issues**:'']"

section \<open>The collaborators and the state\<close>

text \<open>
  What the program reaches outside itself is a parameter of the model:
  \<^item> \<open>md5_hexdigest\<close>: \<^verbatim>\<open>hashlib.md5(prompt.encode()).hexdigest()\<close>;
  \<^item> \<open>py_repr\<close>: \<^verbatim>\<open>repr\<close> of a sample value, which the f-string applies to each
    element of \<^verbatim>\<open>sample_values\<close>;
  \<^item> \<open>ollama_chat\<close>: the body of the \<^verbatim>\<open>try\<close> up to
    \<^verbatim>\<open>response['message']['content']\<close>, as a function of the number of calls made
    before, the model and the prompt: \<open>Inr\<close> the content, \<open>Inl\<close> whatever the client
    raised. The call number lets the service answer the same prompt differently each
    time;
  \<^item> \<open>cache_write_error\<close>: how the \<^verbatim>\<open>with open(cache_file, 'wb')\<close> block of
    \<^verbatim>\<open>_save_to_cache\<close> fails for a path, if it does: in \<^verbatim>\<open>open\<close> itself, before the
    file is touched, or in \<^verbatim>\<open>pickle.dump\<close> or the closing flush, after \<^verbatim>\<open>open\<close> has
    created or truncated the file;
  \<^item> \<open>path_exists\<close> and \<open>read_csv\<close>: \<^verbatim>\<open>os.path.exists\<close> on the source path
    and \<^verbatim>\<open>pd.read_csv\<close>, the frame being its columns in order.
\<close>

record 'v series =
  series_name :: string
  series_dtype :: string
  series_values :: "'v option list"

datatype write_failure =
    Open_fails error
  | Dump_fails error

fun error_of :: "write_failure \<Rightarrow> error" where
  "error_of (Open_fails e) = e"
| "error_of (Dump_fails e) = e"

record 'v env =
  md5_hexdigest :: "string \<Rightarrow> string"
  py_repr :: "'v \<Rightarrow> string"
  ollama_chat :: "nat \<Rightarrow> string \<Rightarrow> string \<Rightarrow> error + string"
  cache_write_error :: "string \<Rightarrow> write_failure option"
  path_exists :: "string \<Rightarrow> bool"
  read_csv :: "string \<Rightarrow> error + 'v series list"

text \<open>
  A file of the cache directory holds a pickled value, or bytes that
  \<^verbatim>\<open>pickle.load\<close> rejects, or cannot be opened for reading, or is the empty file
  that a failed write leaves, on which \<^verbatim>\<open>pickle.load\<close> raises
  \<^verbatim>\<open>EOFError\<close>. The state is the
  cache directory and the log of the calls made to the generation service, each with
  its model and prompt.
\<close>

datatype cache_file =
    Pickled pyval
  | Corrupt string
  | Unreadable string
  | Truncated

record world =
  cache_files :: "string \<rightharpoonup> cache_file"
  chat_calls :: "(string \<times> string) list"

section \<open>The cache\<close>

definition CACHE_DIR :: string where
  "CACHE_DIR = ''ollama_cache''"

text \<open>\<^verbatim>\<open>os.path.join\<close> of two components (POSIX).\<close>

definition path_join :: "string \<Rightarrow> string \<Rightarrow> string" where
  "path_join a b =
     (if b \<noteq> [] \<and> hd b = CHR ''/'' then b
      else if a = [] \<or> last a = CHR ''/'' then a @ b
      else a @ ''/'' @ b)"

definition get_cache_key :: "'v env \<Rightarrow> string \<Rightarrow> string" where
  "get_cache_key env prompt = md5_hexdigest env prompt"

definition cache_file_of :: "string \<Rightarrow> string" where
  "cache_file_of cache_key = path_join CACHE_DIR (cache_key @ ''.pkl'')"

definition load_from_cache :: "world \<Rightarrow> string \<Rightarrow> error + pyval" where
  "load_from_cache w cache_key =
     (case cache_files w (cache_file_of cache_key) of
        None \<Rightarrow> Inr PNone
      | Some (Unreadable m) \<Rightarrow> Inl (OSError m)
      | Some (Corrupt m) \<Rightarrow> Inl (UnpicklingError m)
      | Some Truncated \<Rightarrow> Inl (EOFError ''Ran out of input'')
      | Some (Pickled v) \<Rightarrow> Inr v)"

text \<open>
  \<^verbatim>\<open>_save_to_cache\<close> returns the state it leaves and the exception it raised, if
  any. When \<^verbatim>\<open>open\<close> raises, the directory is as it was; when the write raises
  after \<^verbatim>\<open>open\<close>, the entry is the truncated file, whatever it held before.
\<close>

definition save_to_cache :: "'v env \<Rightarrow> world \<Rightarrow> string \<Rightarrow> pyval \<Rightarrow> world \<times> error option" where
  "save_to_cache env w cache_key response =
     (case cache_write_error env (cache_file_of cache_key) of
        Some (Open_fails e) \<Rightarrow> (w, Some e)
      | Some (Dump_fails e) \<Rightarrow>
          (w\<lparr>cache_files := (cache_files w)(cache_file_of cache_key \<mapsto> Truncated)\<rparr>, Some e)
      | None \<Rightarrow>
          (w\<lparr>cache_files := (cache_files w)(cache_file_of cache_key \<mapsto> Pickled response)\<rparr>,
           None))"

section \<open>\<^verbatim>\<open>_generate_description_with_ollama\<close>\<close>

record column_info =
  column_name :: string
  data_type :: string
  is_nullable :: string

text \<open>\<^verbatim>\<open>str\<close> of a list, as the f-string renders \<^verbatim>\<open>{sample_values}\<close>.\<close>

definition list_str :: "('v \<Rightarrow> string) \<Rightarrow> 'v list \<Rightarrow> string" where
  "list_str rp xs = ''['' @ join '', '' (map rp xs) @ '']''"

text \<open>The f-string of the prompt, line by line.\<close>

definition prompt_of :: "'v env \<Rightarrow> string \<Rightarrow> column_info \<Rightarrow> 'v list \<Rightarrow> string" where
  "prompt_of env table_name ci sample_values =
     ''\<newline>'' @
     ''    As a data governance expert, provide a concise description for the following database column:\<newline>'' @
     ''    \<newline>'' @
     ''    Table: '' @ table_name @ ''\<newline>'' @
     ''    Column: '' @ column_name ci @ ''\<newline>'' @
     ''    Data Type: '' @ data_type ci @ ''\<newline>'' @
     ''    Is Nullable: '' @ is_nullable ci @ ''\<newline>'' @
     ''    \<newline>'' @
     ''    Here are a few sample values from the column: '' @ list_str (py_repr env) sample_values @ ''\<newline>'' @
     ''    \<newline>'' @
     ''    Please provide the following information in markdown format:\<newline>'' @
     ''    - **Business Purpose**: Briefly describe the column's role in business processes (1 clear sentence).\<newline>'' @
     ''    - **Data Quality Rules**: List 1-2 critical rules to ensure data integrity (e.g., format, range, uniqueness).\<newline>'' @
     ''    - **Example Usage**: Provide one practical example of how this column is used in analysis or operations.\<newline>'' @
     ''    - **Known Issues/Limitations**: Identify 1-2 potential data quality issues or limitations.\<newline>'' @
     ''    \<newline>'' @
     ''    Keep the total response under 200 words.\<newline>'' @
     ''    ''"

text \<open>The fallback of the \<^verbatim>\<open>except\<close> clause; \<open>cause\<close> is \<^verbatim>\<open>str(e)\<close>.\<close>

definition fallback_text :: "string \<Rightarrow> column_info \<Rightarrow> string \<Rightarrow> string" where
  "fallback_text table_name ci cause =
     ''- **Business Purpose**: Could not determine purpose for '' @ column_name ci @ ''.\<newline>'' @
     ''- **Data Quality Rules**: Must conform to data type '' @ data_type ci @ ''.\<newline>'' @
     ''- **Example Usage**: Used for general analysis within the '' @ table_name @ '' table.\<newline>'' @
     ''- **Known Issues/Limitations**: LLM description generation failed: '' @ cause"

text \<open>
  The lookup stands before the \<^verbatim>\<open>try\<close>, so what it raises leaves the function;
  the call and the store stand inside it, so what either raises ends in the fallback,
  with the cache as the failed store left it.
\<close>

definition generate_description_with_ollama ::
  "'v env \<Rightarrow> world \<Rightarrow> string \<Rightarrow> column_info \<Rightarrow> 'v list \<Rightarrow> string \<Rightarrow> world \<times> (error + pyval)" where
  "generate_description_with_ollama env w table_name ci sample_values model =
     (let prompt = prompt_of env table_name ci sample_values;
          cache_key = get_cache_key env prompt
      in case load_from_cache w cache_key of
           Inl e \<Rightarrow> (w, Inl e)
         | Inr cached_response \<Rightarrow>
             if truthy cached_response then (w, Inr cached_response)
             else
               (let w1 = w\<lparr>chat_calls := chat_calls w @ [(model, prompt)]\<rparr>
                in case ollama_chat env (length (chat_calls w)) model prompt of
                     Inl e \<Rightarrow> (w1, Inr (PStr (fallback_text table_name ci (str_of_error e))))
                   | Inr content \<Rightarrow>
                       (let description = strip content
                        in case save_to_cache env w1 cache_key (PStr description) of
                             (w2, Some e) \<Rightarrow>
                               (w2, Inr (PStr (fallback_text table_name ci (str_of_error e))))
                           | (w2, None) \<Rightarrow> (w2, Inr (PStr description)))))"

section \<open>\<^verbatim>\<open>generate_descriptions_from_csv\<close>\<close>

text \<open>\<^verbatim>\<open>os.path.basename\<close> and the root of \<^verbatim>\<open>os.path.splitext\<close> (POSIX).\<close>

definition basename :: "string \<Rightarrow> string" where
  "basename p = rev (takeWhile (\<lambda>c. c \<noteq> CHR ''/'') (rev p))"

definition splitext_root :: "string \<Rightarrow> string" where
  "splitext_root p =
     (let fname = basename p;
          stem = rev (tl (dropWhile (\<lambda>c. c \<noteq> CHR ''.'') (rev fname)))
      in if CHR ''.'' \<in> set fname \<and> (\<exists>c \<in> set stem. c \<noteq> CHR ''.'')
         then take (length p - (length fname - length stem)) p
         else p)"

definition table_name_of :: "string \<Rightarrow> string" where
  "table_name_of csv_file_path = splitext_root (basename csv_file_path)"

text \<open>
  \<^verbatim>\<open>Series.unique()\<close> keeps the first occurrence of each value, in order.
\<close>

definition unique :: "'a list \<Rightarrow> 'a list" where
  "unique xs = rev (remdups (rev xs))"

definition column_info_metadata :: "'v series \<Rightarrow> column_info" where
  "column_info_metadata col =
     \<lparr>column_name = series_name col,
      data_type = series_dtype col,
      is_nullable = (if None \<in> set (series_values col) then ''YES'' else ''NO'')\<rparr>"

definition sample_values_of :: "'v series \<Rightarrow> 'v list" where
  "sample_values_of col = take 5 (unique (map the (filter (\<lambda>x. x \<noteq> None) (series_values col))))"

text \<open>
  The loop over \<^verbatim>\<open>df.columns\<close>; \<open>all_column_info\<close> is the list the loop appends
  to. An exception leaves the loop with the state as it is then.
\<close>

fun describe_columns ::
  "'v env \<Rightarrow> world \<Rightarrow> string \<Rightarrow> string \<Rightarrow> pyval list \<Rightarrow> 'v series list \<Rightarrow> world \<times> (error + pyval list)" where
  "describe_columns env w table_name model all_column_info [] = (w, Inr all_column_info)"
| "describe_columns env w table_name model all_column_info (col # cols) =
     (case generate_description_with_ollama env w table_name
             (column_info_metadata col) (sample_values_of col) model of
        (w1, Inl e) \<Rightarrow> (w1, Inl e)
      | (w1, Inr description_md) \<Rightarrow>
          (case parse_markdown_description description_md of
             Inl e \<Rightarrow> (w1, Inl e)
           | Inr parsed_desc \<Rightarrow>
               describe_columns env w1 table_name model
                 (all_column_info @
                    [PDict [(''column_name'', PStr (series_name col)),
                            (''column_desc'', PList [parsed_desc])]])
                 cols))"

definition generate_descriptions_from_csv ::
  "'v env \<Rightarrow> world \<Rightarrow> string \<Rightarrow> string \<Rightarrow> world \<times> pyval" where
  "generate_descriptions_from_csv env w csv_file_path model =
     (if \<not> path_exists env csv_file_path then (w, PDict [])
      else
        case read_csv env csv_file_path of
          Inl e \<Rightarrow> (w, PDict [])
        | Inr df \<Rightarrow>
            (let table_name = table_name_of csv_file_path
             in case describe_columns env w table_name model [] df of
                  (w', Inl e) \<Rightarrow> (w', PDict [])
                | (w', Inr all_column_info) \<Rightarrow>
                    (w', PDict [(table_name, PList all_column_info)])))"

section \<open>The shape of the result\<close>

text \<open>
  The dictionary that \<^verbatim>\<open>_parse_markdown_description\<close> builds, and the record that the
  loop builds for a column; \<open>dict_get\<close> is \<^verbatim>\<open>dict.get\<close>.
\<close>

definition structured_description :: "pyval \<Rightarrow> bool" where
  "structured_description sd =
     (\<exists>bp dq eu iss.
        sd = PDict [(''business_purpose'', PStr bp), (''data_quality_rules'', PStr dq),
                    (''example_usage'', PStr eu), (''issues'', PStr iss)])"

definition column_record :: "'v series \<Rightarrow> pyval \<Rightarrow> bool" where
  "column_record col r =
     (\<exists>sd. structured_description sd \<and>
        r = PDict [(''column_name'', PStr (series_name col)), (''column_desc'', PList [sd])])"

fun dict_get :: "pyval \<Rightarrow> string \<Rightarrow> pyval option" where
  "dict_get (PDict kvs) k = map_of kvs k"
| "dict_get v k = None"

section \<open>Cache files that cannot be loaded\<close>

text \<open>
  A file is broken when \<^verbatim>\<open>_load_from_cache\<close> raises on it; \<open>cache_file_for\<close> is the
  cache file of a column of a table.
\<close>

definition broken :: "world \<Rightarrow> string \<Rightarrow> bool" where
  "broken w p =
     (case cache_files w p of
        Some (Corrupt m) \<Rightarrow> True
      | Some (Unreadable m) \<Rightarrow> True
      | Some Truncated \<Rightarrow> True
      | _ \<Rightarrow> False)"

definition cache_file_for :: "'v env \<Rightarrow> string \<Rightarrow> 'v series \<Rightarrow> string" where
  "cache_file_for env table_name col =
     cache_file_of (get_cache_key env
       (prompt_of env table_name (column_info_metadata col) (sample_values_of col)))"

section \<open>Descriptions and records\<close>

text \<open>
  \<open>fields_of\<close> is the dictionary of the four extracted fields of a text and
  \<open>record_of\<close> the record of a column with that description. A text is populated
  when each of the four labels occurs in it and each field extracted from it is not
  empty. A file misses when the lookup returns \<^verbatim>\<open>None\<close> or a falsy value; it is
  loadable when the lookup does not raise and a truthy value it returns is a string.
  With the service out of reach, a column is described by the fallback record when its
  file misses and by the record of the cached text otherwise.
\<close>

definition populated :: "string \<Rightarrow> bool" where
  "populated d =
     (\<forall>ls \<in> {business_purpose_labels, data_quality_rules_labels, example_usage_labels, issues_labels}.
        label_occurs ls d \<and> section_value ls d \<noteq> [])"

definition fields_of :: "string \<Rightarrow> pyval" where
  "fields_of d =
     PDict [(''business_purpose'', PStr (section_value business_purpose_labels d)),
            (''data_quality_rules'', PStr (section_value data_quality_rules_labels d)),
            (''example_usage'', PStr (section_value example_usage_labels d)),
            (''issues'', PStr (section_value issues_labels d))]"

definition record_of :: "'v series \<Rightarrow> string \<Rightarrow> pyval" where
  "record_of col d =
     PDict [(''column_name'', PStr (series_name col)), (''column_desc'', PList [fields_of d])]"

definition fallback_record :: "string \<Rightarrow> 'v series \<Rightarrow> pyval \<Rightarrow> bool" where
  "fallback_record table_name col r =
     (\<exists>cause. r = record_of col (fallback_text table_name (column_info_metadata col) cause) \<and>
        populated (fallback_text table_name (column_info_metadata col) cause))"

definition misses :: "world \<Rightarrow> string \<Rightarrow> bool" where
  "misses w p =
     (case cache_files w p of
        None \<Rightarrow> True
      | Some (Pickled v) \<Rightarrow> \<not> truthy v
      | Some (Corrupt m) \<Rightarrow> False
      | Some (Unreadable m) \<Rightarrow> False
      | Some Truncated \<Rightarrow> False)"

definition loadable :: "world \<Rightarrow> string \<Rightarrow> bool" where
  "loadable w p =
     (case cache_files w p of
        None \<Rightarrow> True
      | Some (Pickled v) \<Rightarrow> (case v of PStr d \<Rightarrow> True | _ \<Rightarrow> \<not> truthy v)
      | Some (Corrupt m) \<Rightarrow> False
      | Some (Unreadable m) \<Rightarrow> False
      | Some Truncated \<Rightarrow> False)"

definition described_without_service ::
  "'v env \<Rightarrow> world \<Rightarrow> string \<Rightarrow> 'v series \<Rightarrow> pyval \<Rightarrow> bool" where
  "described_without_service env w table_name col r =
     (if misses w (cache_file_for env table_name col) then fallback_record table_name col r
      else (\<exists>d. cache_files w (cache_file_for env table_name col) = Some (Pickled (PStr d)) \<and>
                 r = record_of col d))"

section \<open>A small store table, for the examples\<close>

text \<open>
  One table \<^verbatim>\<open>data/stores.csv\<close> with the column \<^verbatim>\<open>StoreID\<close>; a service that
  answers with four sections, with blank text, or not at all; a cache directory that
  can be written, that is full, or that is read-only. The digest is constant, so every
  prompt has the one cache file \<open>demo_key\<close>.
\<close>

definition demo_repr :: "string \<Rightarrow> string" where
  "demo_repr v = [CHR 0x27] @ v @ [CHR 0x27]"

definition demo_digest :: "string \<Rightarrow> string" where
  "demo_digest prompt = ''5d41402abc4b2a76b9719d911017c592''"

definition demo_frame :: "string series list" where
  "demo_frame =
     [\<lparr>series_name = ''StoreID'', series_dtype = ''object'',
       series_values = [Some ''STORE-A'', Some ''STORE-B'', Some ''STORE-A'']\<rparr>]"

definition demo_read_csv :: "string \<Rightarrow> error + string series list" where
  "demo_read_csv p = (if p = ''data/stores.csv'' then Inr demo_frame else Inl (ReadError ''cannot parse''))"

definition demo_exists :: "string \<Rightarrow> bool" where
  "demo_exists p = (p = ''data/stores.csv'' \<or> p = ''data/broken.csv'')"

definition demo_env ::
  "(nat \<Rightarrow> string \<Rightarrow> string \<Rightarrow> error + string) \<Rightarrow> (string \<Rightarrow> write_failure option) \<Rightarrow> string env" where
  "demo_env chat werr =
     \<lparr>md5_hexdigest = demo_digest, py_repr = demo_repr, ollama_chat = chat,
      cache_write_error = werr, path_exists = demo_exists, read_csv = demo_read_csv\<rparr>"

definition demo_response :: string where
  "demo_response =
     ''- **Business Purpose**: Identifies the store.\<newline>'' @
     ''- **Data Quality Rules**: Never empty.\<newline>'' @
     ''- **Example Usage**: Sales by store.\<newline>'' @
     ''- **Known Issues/Limitations**: None known.\<newline>''"

definition chat_ok :: "nat \<Rightarrow> string \<Rightarrow> string \<Rightarrow> error + string" where
  "chat_ok i model prompt = Inr demo_response"

definition chat_blank :: "nat \<Rightarrow> string \<Rightarrow> string \<Rightarrow> error + string" where
  "chat_blank i model prompt = Inr '' \<newline>''"

definition chat_down :: "nat \<Rightarrow> string \<Rightarrow> string \<Rightarrow> error + string" where
  "chat_down i model prompt = Inl (ChatError ''connection refused'')"

definition writable :: "string \<Rightarrow> write_failure option" where
  "writable p = None"

definition disk_full :: "string \<Rightarrow> write_failure option" where
  "disk_full p = Some (Dump_fails (OSError ''No space left on device''))"

definition read_only :: "string \<Rightarrow> write_failure option" where
  "read_only p = Some (Open_fails (OSError ''Permission denied''))"

definition demo_key :: string where
  "demo_key = ''ollama_cache/5d41402abc4b2a76b9719d911017c592.pkl''"

definition empty_world :: world where
  "empty_world = \<lparr>cache_files = Map.empty, chat_calls = []\<rparr>"

definition world_with :: "cache_file \<Rightarrow> world" where
  "world_with f = \<lparr>cache_files = [demo_key \<mapsto> f], chat_calls = []\<rparr>"

definition demo_column :: column_info where
  "demo_column = \<lparr>column_name = ''StoreID'', data_type = ''object'', is_nullable = ''NO''\<rparr>"

section \<open>Lemmas: characters and the matcher\<close>

lemma of_char_ascii_lower:
  "(of_char (ascii_lower c) :: nat) =
     (if 65 \<le> (of_char c :: nat) \<and> (of_char c :: nat) \<le> 90 then of_char c + 32 else of_char c)"
  by (simp add: ascii_lower_def Let_def)

lemma ascii_lower_nl [simp]: "ascii_lower CHR ''\<newline>'' = CHR ''\<newline>''"
  and ascii_lower_dash [simp]: "ascii_lower CHR ''-'' = CHR ''-''"
  by (simp_all add: ascii_lower_def)

lemma ascii_lower_eq_nl [simp]: "(CHR ''\<newline>'' = ascii_lower c) = (c = CHR ''\<newline>'')"
proof -
  have "(CHR ''\<newline>'' = ascii_lower c) =
          ((of_char (CHR ''\<newline>'') :: nat) = of_char (ascii_lower c))"
    by (simp only: of_char_eq_iff)
  also have "\<dots> = (of_char c = (10::nat))"
    by (simp add: of_char_ascii_lower)
  also have "\<dots> = ((of_char c :: nat) = of_char (CHR ''\<newline>''))"
    by simp
  also have "\<dots> = (c = CHR ''\<newline>'')"
    by (simp only: of_char_eq_iff)
  finally show ?thesis .
qed

lemma ascii_lower_eq_dash [simp]: "(CHR ''-'' = ascii_lower c) = (c = CHR ''-'')"
proof -
  have "(CHR ''-'' = ascii_lower c) =
          ((of_char (CHR ''-'') :: nat) = of_char (ascii_lower c))"
    by (simp only: of_char_eq_iff)
  also have "\<dots> = (of_char c = (45::nat))"
    by (simp add: of_char_ascii_lower)
  also have "\<dots> = ((of_char c :: nat) = of_char (CHR ''-''))"
    by simp
  also have "\<dots> = (c = CHR ''-'')"
    by (simp only: of_char_eq_iff)
  finally show ?thesis .
qed

lemma rmatch_boundary:
  "rmatch (Lookahead (Alt (Lit ''\<newline>-'') (Alt (Lit ''\<newline>\<newline>'') Eos))) (s, g) k =
     (if at_boundary s then k (s, g) else None)"
  by (cases s rule: at_boundary.cases) (auto split: option.splits)


lemma lazy_any_boundary:
  "lazy_any acc s (\<lambda>cap r. if at_boundary r then Some (r, Some cap) else None) =
     Some (drop (length (lazy_capture s)) s, Some (acc @ lazy_capture s))"
  by (induction s arbitrary: acc) auto

lemma greedy_space_total:
  "(\<And>r. k r \<noteq> None) \<Longrightarrow> greedy_space s k = k (dropWhile py_isspace s)"
proof (induction s)
  case Nil
  show ?case by simp
next
  case (Cons c cs)
  obtain m where m: "k (dropWhile py_isspace cs) = Some m"
    using Cons.prems [of "dropWhile py_isspace cs"] by auto
  show ?case
    using Cons.IH [OF Cons.prems] m by simp
qed

lemma rmatch_section_tail:
  "rmatch section_tail (s, g) Some =
     Some (drop (length (section_capture s)) (dropWhile py_isspace s), Some (section_capture s))"
proof -
  let ?k = "\<lambda>r. lazy_any [] r (\<lambda>cap r'. if at_boundary r' then Some (r', Some cap) else None)"
  have "rmatch section_tail (s, g) Some = greedy_space s ?k"
    unfolding section_tail_def by (simp only: rmatch.simps(2,3,6) rmatch_boundary)
  also have "\<dots> = ?k (dropWhile py_isspace s)"
    by (rule greedy_space_total) (simp add: lazy_any_boundary)
  finally show ?thesis
    by (simp add: lazy_any_boundary section_capture_def)
qed

lemma lit_prefix_append:
  "lit_prefix (a @ b) s = (case lit_prefix a s of None \<Rightarrow> None | Some r \<Rightarrow> lit_prefix b r)"
  by (induction a s rule: lit_prefix.induct) auto

lemma rmatch_single_label:
  "rmatch (Seq (Lit l) section_tail) (s, None) Some =
     (case label_at [l] s of
        None \<Rightarrow> None
      | Some rest \<Rightarrow>
          Some (drop (length (section_capture rest)) (dropWhile py_isspace rest),
                Some (section_capture rest)))"
  by (simp add: rmatch_section_tail split: option.splits)

lemma rmatch_alt_labels:
  "rmatch (Seq (Lit pre) (Seq (Alt (Lit a) (Lit b)) (Seq (Lit post) section_tail))) (s, None) Some =
     (case label_at [pre @ a @ post, pre @ b @ post] s of
        None \<Rightarrow> None
      | Some rest \<Rightarrow>
          Some (drop (length (section_capture rest)) (dropWhile py_isspace rest),
                Some (section_capture rest)))"
  by (simp add: lit_prefix_append rmatch_section_tail split: option.splits)

lemma re_search_labels:
  assumes "\<And>s. rmatch r (s, None) Some =
     (case label_at ls s of
        None \<Rightarrow> None
      | Some rest \<Rightarrow>
          Some (drop (length (section_capture rest)) (dropWhile py_isspace rest),
                Some (section_capture rest)))"
  shows "re_search r d =
     (case find_label ls d of
        None \<Rightarrow> None
      | Some rest \<Rightarrow>
          Some (drop (length (section_capture rest)) (dropWhile py_isspace rest),
                Some (section_capture rest)))"
  by (induction d) (simp_all add: assms split: option.splits)

lemma parse_markdown_description_eq:
  "parse_markdown_description (PStr d) =
     Inr (PDict
       [(''business_purpose'', PStr (section_value business_purpose_labels d)),
        (''data_quality_rules'', PStr (section_value data_quality_rules_labels d)),
        (''example_usage'', PStr (section_value example_usage_labels d)),
        (''issues'', PStr (section_value issues_labels d))])"
proof -
  have i: "re_search (Seq (Lit ''**'')
           (Seq (Alt (Lit ''Known Issues/Limitations'') (Lit ''Issues''))
             (Seq (Lit ''**:'') section_tail))) d =
     (case find_label [''**Known Issues/Limitations**:'', ''**Issues**:''] d of
        None \<Rightarrow> None
      | Some rest \<Rightarrow>
          Some (drop (length (section_capture rest)) (dropWhile py_isspace rest),
                Some (section_capture rest)))"
    by (rule re_search_labels) (simp only: rmatch_alt_labels append.simps)
  show ?thesis
    by (simp add: patterns_def i re_search_labels [OF rmatch_single_label] section_value_def
        business_purpose_labels_def data_quality_rules_labels_def example_usage_labels_def
        issues_labels_def split: option.splits)
qed

lemma label_at_None: "label_at ls s = None \<longleftrightarrow> (\<forall>l \<in> set ls. lit_prefix l s = None)"
  by (induction ls) (auto split: option.splits)

lemma find_label_None: "find_label ls d = None \<longleftrightarrow> \<not> label_occurs ls d"
proof (induction d)
  case Nil
  show ?case by (simp add: label_occurs_def label_at_None)
next
  case (Cons c cs)
  have "find_label ls (c # cs) = None \<longleftrightarrow>
          label_at ls (c # cs) = None \<and> find_label ls cs = None"
    by (simp split: option.splits)
  also have "\<dots> \<longleftrightarrow> (\<forall>l \<in> set ls. lit_prefix l (c # cs) = None) \<and> \<not> label_occurs ls cs"
    by (simp only: label_at_None Cons.IH)
  also have "\<dots> \<longleftrightarrow> \<not> label_occurs ls (c # cs)"
    by (auto simp: label_occurs_def)
  finally show ?case .
qed

lemma dropWhile_rev_keeps_head:
  assumes "\<not> P y"
  shows "\<exists>zs'. rev (dropWhile P (rev (y # zs))) = y # zs'"
proof (cases "\<forall>x \<in> set (rev zs). P x")
  case True
  then have "dropWhile P (rev zs @ [y]) = [y]"
    using assms by (simp add: dropWhile_append)
  then show ?thesis by simp
next
  case False
  then have "dropWhile P (rev zs @ [y]) = dropWhile P (rev zs) @ [y]"
    by (simp add: dropWhile_append)
  then have "rev (dropWhile P (rev (y # zs))) = y # rev (dropWhile P (rev zs))"
    by simp
  then show ?thesis by blast
qed

lemma strip_Cons_nonspace:
  "\<not> py_isspace c \<Longrightarrow> \<exists>zs. strip (c # cs) = c # zs"
  using dropWhile_rev_keeps_head [of py_isspace c cs] by (simp add: strip_def)

lemma strip_dropWhile: "strip (dropWhile py_isspace s) = strip s"
  by (simp add: strip_def)

lemma trimmed_strip: "trimmed (strip s)"
proof (cases "dropWhile py_isspace s")
  case Nil
  have "strip s = []" unfolding strip_def Nil by simp
  then show ?thesis by (simp add: trimmed_def)
next
  case (Cons y zs)
  then have y: "\<not> py_isspace y"
    by (metis hd_dropWhile list.sel(1) list.distinct(1))
  obtain zs' where z: "strip s = y # zs'"
    using strip_Cons_nonspace [OF y, of zs] strip_dropWhile [of s] Cons by auto
  let ?b = "dropWhile py_isspace (rev (dropWhile py_isspace s))"
  have b: "?b \<noteq> []" using z by (auto simp: strip_def)
  have "last (strip s) = hd ?b" using b by (simp add: strip_def last_rev)
  moreover have "\<not> py_isspace (hd ?b)" using b by (rule hd_dropWhile)
  ultimately show ?thesis using y z by (simp add: trimmed_def)
qed

lemma section_value_unmatched: "\<not> label_occurs ls d \<Longrightarrow> section_value ls d = ''N/A''"
  by (simp add: section_value_def find_label_None [symmetric])

lemma section_value_matched:
  "label_occurs ls d \<Longrightarrow>
     \<exists>rest. find_label ls d = Some rest \<and> section_value ls d = strip (section_capture rest)"
  using find_label_None [of ls d] by (auto simp: section_value_def)

lemma trimmed_section_value: "trimmed (section_value ls d)"
proof (cases "find_label ls d")
  case None
  then show ?thesis by (simp add: section_value_def trimmed_def py_isspace_def)
next
  case (Some rest)
  then show ?thesis by (simp add: section_value_def trimmed_strip)
qed

section \<open>The field extractor is total and complete\<close>

text \<open>
  Claim C4. For every input string the field extractor returns, without failing, a
  dictionary with exactly the four keys \<^verbatim>\<open>business_purpose\<close>,
  \<^verbatim>\<open>data_quality_rules\<close>, \<^verbatim>\<open>example_usage\<close> and \<^verbatim>\<open>issues\<close>, in this
  order. The value of a key whose label does not occur in the text (in any case, in
  either spelling for the issues) is \<^verbatim>\<open>N/A\<close>; the value of a key whose label occurs
  is the capture after the leftmost occurrence, stripped; and every value is free of
  whitespace at both ends.
\<close>

theorem parse_markdown_description_total:
  "parse_markdown_description (PStr d) =
     Inr (PDict
       [(''business_purpose'', PStr (section_value business_purpose_labels d)),
        (''data_quality_rules'', PStr (section_value data_quality_rules_labels d)),
        (''example_usage'', PStr (section_value example_usage_labels d)),
        (''issues'', PStr (section_value issues_labels d))]) \<and>
   (\<forall>ls \<in> {business_purpose_labels, data_quality_rules_labels, example_usage_labels, issues_labels}.
      trimmed (section_value ls d) \<and>
      (\<not> label_occurs ls d \<longrightarrow> section_value ls d = ''N/A'') \<and>
      (label_occurs ls d \<longrightarrow>
         (\<exists>rest. find_label ls d = Some rest \<and> section_value ls d = strip (section_capture rest))))"
proof (rule conjI)
  show "parse_markdown_description (PStr d) =
     Inr (PDict
       [(''business_purpose'', PStr (section_value business_purpose_labels d)),
        (''data_quality_rules'', PStr (section_value data_quality_rules_labels d)),
        (''example_usage'', PStr (section_value example_usage_labels d)),
        (''issues'', PStr (section_value issues_labels d))])"
    by (rule parse_markdown_description_eq)
next
  show "\<forall>ls \<in> {business_purpose_labels, data_quality_rules_labels, example_usage_labels, issues_labels}.
      trimmed (section_value ls d) \<and>
      (\<not> label_occurs ls d \<longrightarrow> section_value ls d = ''N/A'') \<and>
      (label_occurs ls d \<longrightarrow>
         (\<exists>rest. find_label ls d = Some rest \<and> section_value ls d = strip (section_capture rest)))"
    using section_value_unmatched section_value_matched trimmed_section_value by blast
qed

theorem parse_markdown_description_total_witness:
  "parse_markdown_description
       (PStr ''- **Business Purpose**: Tracks the store.\<newline>- **data quality rules**:   a\<newline>b \<newline>\<newline>- **Issues**: none \<newline>'') =
     Inr (PDict
       [(''business_purpose'', PStr ''Tracks the store.''),
        (''data_quality_rules'', PStr ''a\<newline>b''),
        (''example_usage'', PStr ''N/A''),
        (''issues'', PStr ''none'')]) \<and>
   \<not> label_occurs example_usage_labels
       ''- **Business Purpose**: Tracks the store.\<newline>- **data quality rules**:   a\<newline>b \<newline>\<newline>- **Issues**: none \<newline>'' \<and>
   label_occurs issues_labels
       ''- **Business Purpose**: Tracks the store.\<newline>- **data quality rules**:   a\<newline>b \<newline>\<newline>- **Issues**: none \<newline>'' \<and>
   trimmed ''none''"
proof -
  let ?d = "''- **Business Purpose**: Tracks the store.\<newline>- **data quality rules**:   a\<newline>b \<newline>\<newline>- **Issues**: none \<newline>''"
  have v: "section_value business_purpose_labels ?d = ''Tracks the store.''"
    "section_value data_quality_rules_labels ?d = ''a\<newline>b''"
    "section_value issues_labels ?d = ''none''"
    by code_simp+
  have o: "\<not> label_occurs example_usage_labels ?d" "label_occurs issues_labels ?d"
    by code_simp+
  from parse_markdown_description_total [of ?d] v o show ?thesis
    by simp
qed

section \<open>Lemmas: the cache and one generation step\<close>

lemma demo_cache_file [simp]:
  "cache_file_of (get_cache_key (demo_env chat werr) p) = demo_key"
  by (simp add: cache_file_of_def get_cache_key_def demo_env_def demo_digest_def demo_key_def
      path_join_def CACHE_DIR_def)

lemma demo_env_sel [simp]:
  "ollama_chat (demo_env chat werr) = chat"
  "cache_write_error (demo_env chat werr) = werr"
  "path_exists (demo_env chat werr) = demo_exists"
  "read_csv (demo_env chat werr) = demo_read_csv"
  "py_repr (demo_env chat werr) = demo_repr"
  by (simp_all add: demo_env_def)

lemma strip_blank [simp]: "strip '' \<newline>'' = []"
  by (simp add: strip_def py_isspace_def)

lemma generate_raises:
  "load_from_cache w (get_cache_key env (prompt_of env t ci s)) = Inl e \<Longrightarrow>
     generate_description_with_ollama env w t ci s m = (w, Inl e)"
  by (simp add: generate_description_with_ollama_def Let_def)

lemma generate_hit:
  "load_from_cache w (get_cache_key env (prompt_of env t ci s)) = Inr v \<Longrightarrow> truthy v \<Longrightarrow>
     generate_description_with_ollama env w t ci s m = (w, Inr v)"
  by (simp add: generate_description_with_ollama_def Let_def)

lemma generate_miss_failed:
  "load_from_cache w (get_cache_key env (prompt_of env t ci s)) = Inr v \<Longrightarrow> \<not> truthy v \<Longrightarrow>
   ollama_chat env (length (chat_calls w)) m (prompt_of env t ci s) = Inl e \<Longrightarrow>
     generate_description_with_ollama env w t ci s m =
       (w\<lparr>chat_calls := chat_calls w @ [(m, prompt_of env t ci s)]\<rparr>,
        Inr (PStr (fallback_text t ci (str_of_error e))))"
  by (simp add: generate_description_with_ollama_def Let_def)

lemma generate_miss_unopened:
  "load_from_cache w (get_cache_key env (prompt_of env t ci s)) = Inr v \<Longrightarrow> \<not> truthy v \<Longrightarrow>
   ollama_chat env (length (chat_calls w)) m (prompt_of env t ci s) = Inr content \<Longrightarrow>
   cache_write_error env (cache_file_of (get_cache_key env (prompt_of env t ci s))) =
     Some (Open_fails e) \<Longrightarrow>
     generate_description_with_ollama env w t ci s m =
       (w\<lparr>chat_calls := chat_calls w @ [(m, prompt_of env t ci s)]\<rparr>,
        Inr (PStr (fallback_text t ci (str_of_error e))))"
  by (simp add: generate_description_with_ollama_def Let_def save_to_cache_def)

lemma generate_miss_truncated:
  "load_from_cache w (get_cache_key env (prompt_of env t ci s)) = Inr v \<Longrightarrow> \<not> truthy v \<Longrightarrow>
   ollama_chat env (length (chat_calls w)) m (prompt_of env t ci s) = Inr content \<Longrightarrow>
   cache_write_error env (cache_file_of (get_cache_key env (prompt_of env t ci s))) =
     Some (Dump_fails e) \<Longrightarrow>
     generate_description_with_ollama env w t ci s m =
       (w\<lparr>chat_calls := chat_calls w @ [(m, prompt_of env t ci s)],
          cache_files := (cache_files w)
            (cache_file_of (get_cache_key env (prompt_of env t ci s)) \<mapsto> Truncated)\<rparr>,
        Inr (PStr (fallback_text t ci (str_of_error e))))"
  by (simp add: generate_description_with_ollama_def Let_def save_to_cache_def)

lemma generate_miss_saved:
  "load_from_cache w (get_cache_key env (prompt_of env t ci s)) = Inr v \<Longrightarrow> \<not> truthy v \<Longrightarrow>
   ollama_chat env (length (chat_calls w)) m (prompt_of env t ci s) = Inr content \<Longrightarrow>
   cache_write_error env (cache_file_of (get_cache_key env (prompt_of env t ci s))) = None \<Longrightarrow>
     generate_description_with_ollama env w t ci s m =
       (w\<lparr>chat_calls := chat_calls w @ [(m, prompt_of env t ci s)],
          cache_files := (cache_files w)
            (cache_file_of (get_cache_key env (prompt_of env t ci s)) \<mapsto> Pickled (PStr (strip content)))\<rparr>,
        Inr (PStr (strip content)))"
  by (simp add: generate_description_with_ollama_def Let_def save_to_cache_def)

lemma load_after_save:
  "load_from_cache (w\<lparr>chat_calls := cs, cache_files := (cache_files w)(cache_file_of k \<mapsto> Pickled v)\<rparr>) k = Inr v"
  by (simp add: load_from_cache_def)

section \<open>Two runs on the same column\<close>

text \<open>
  Claim C1, as amended. For every table name, column metadata, samples and model: when
  the first run misses the cache (no entry under the prompt's key, or a falsy one), its
  call to the generation service succeeds with text that is not blank, and the store
  succeeds, then the two runs issue exactly one call: the second run finds the entry
  stored under the key of the same prompt, returns it without changing the state, and
  the description it yields is the first run's, which the extractor parses.
\<close>

theorem second_run_served_from_cache:
  assumes miss: "load_from_cache w (get_cache_key env (prompt_of env t ci s)) = Inr v" "\<not> truthy v"
    and chat: "ollama_chat env (length (chat_calls w)) m (prompt_of env t ci s) = Inr content"
    and nonblank: "strip content \<noteq> []"
    and stored: "cache_write_error env (cache_file_of (get_cache_key env (prompt_of env t ci s))) = None"
  shows "\<exists>w1 sd.
     generate_description_with_ollama env w t ci s m = (w1, Inr (PStr (strip content))) \<and>
     generate_description_with_ollama env w1 t ci s m = (w1, Inr (PStr (strip content))) \<and>
     chat_calls w1 = chat_calls w @ [(m, prompt_of env t ci s)] \<and>
     load_from_cache w1 (get_cache_key env (prompt_of env t ci s)) = Inr (PStr (strip content)) \<and>
     parse_markdown_description (PStr (strip content)) = Inr sd"
proof -
  let ?k = "get_cache_key env (prompt_of env t ci s)"
  let ?w1 = "w\<lparr>chat_calls := chat_calls w @ [(m, prompt_of env t ci s)],
          cache_files := (cache_files w)(cache_file_of ?k \<mapsto> Pickled (PStr (strip content)))\<rparr>"
  have r1: "generate_description_with_ollama env w t ci s m = (?w1, Inr (PStr (strip content)))"
    using miss chat stored by (rule generate_miss_saved)
  have l: "load_from_cache ?w1 ?k = Inr (PStr (strip content))"
    by (rule load_after_save)
  have r2: "generate_description_with_ollama env ?w1 t ci s m = (?w1, Inr (PStr (strip content)))"
    using l nonblank by (simp add: generate_hit)
  have c: "chat_calls ?w1 = chat_calls w @ [(m, prompt_of env t ci s)]" by simp
  obtain sd where p: "parse_markdown_description (PStr (strip content)) = Inr sd"
    using parse_markdown_description_eq by blast
  show ?thesis using r1 r2 c l p by blast
qed

lemma strip_demo_response:
  "strip demo_response =
     ''- **Business Purpose**: Identifies the store.\<newline>'' @
     ''- **Data Quality Rules**: Never empty.\<newline>'' @
     ''- **Example Usage**: Sales by store.\<newline>'' @
     ''- **Known Issues/Limitations**: None known.''"
  by (simp add: demo_response_def strip_def py_isspace_def)

theorem second_run_served_from_cache_witness:
  "\<exists>w1 sd.
     generate_description_with_ollama (demo_env chat_ok writable) empty_world
        ''stores'' demo_column [''STORE-A'', ''STORE-B''] ''llama3'' =
       (w1, Inr (PStr (strip demo_response))) \<and>
     generate_description_with_ollama (demo_env chat_ok writable) w1
        ''stores'' demo_column [''STORE-A'', ''STORE-B''] ''llama3'' =
       (w1, Inr (PStr (strip demo_response))) \<and>
     chat_calls w1 =
       [(''llama3'', prompt_of (demo_env chat_ok writable) ''stores'' demo_column [''STORE-A'', ''STORE-B''])] \<and>
     load_from_cache w1 (get_cache_key (demo_env chat_ok writable)
         (prompt_of (demo_env chat_ok writable) ''stores'' demo_column [''STORE-A'', ''STORE-B''])) =
       Inr (PStr (strip demo_response)) \<and>
     parse_markdown_description (PStr (strip demo_response)) = Inr sd"
proof -
  let ?env = "demo_env chat_ok writable"
  let ?p = "prompt_of ?env ''stores'' demo_column [''STORE-A'', ''STORE-B'']"
  have miss: "load_from_cache empty_world (get_cache_key ?env ?p) = Inr PNone" "\<not> truthy PNone"
    by (simp_all add: load_from_cache_def empty_world_def)
  have chat: "ollama_chat ?env (length (chat_calls empty_world)) ''llama3'' ?p = Inr demo_response"
    by (simp add: chat_ok_def)
  have nonblank: "strip demo_response \<noteq> []"
    by (simp add: strip_demo_response)
  have stored: "cache_write_error ?env (cache_file_of (get_cache_key ?env ?p)) = None"
    by (simp add: writable_def)
  show ?thesis
    using second_run_served_from_cache [OF miss chat nonblank stored]
    by (simp add: empty_world_def)
qed

text \<open>
  The claim as stated fails: the service answers the store column with blank text, the
  stripped text is stored, the second run reads the empty string back, takes it for a
  miss, and calls the service again: two calls.
\<close>

theorem second_run_calls_again_counterexample:
  "cache_files (fst (generate_description_with_ollama (demo_env chat_blank writable) empty_world
        ''stores'' demo_column [''STORE-A'', ''STORE-B''] ''llama3'')) demo_key = Some (Pickled (PStr [])) \<and>
   length (chat_calls (fst (generate_description_with_ollama (demo_env chat_blank writable)
     (fst (generate_description_with_ollama (demo_env chat_blank writable) empty_world
        ''stores'' demo_column [''STORE-A'', ''STORE-B''] ''llama3''))
     ''stores'' demo_column [''STORE-A'', ''STORE-B''] ''llama3''))) = 2"
  by (simp add: generate_description_with_ollama_def Let_def load_from_cache_def save_to_cache_def
      empty_world_def chat_blank_def writable_def)


section \<open>A store that fails\<close>

text \<open>
  Claim C2, as amended. When the lookup misses, the generation call succeeds and the
  store raises, the exception is caught by the handler of the generation call: the run
  is not aborted, the call is logged, and the text returned is the fallback text with the
  store's error as its cause, not the generated description. The cache is as the failed
  store left it: as it was when the file could not be opened, and with the truncated
  file under the key when the write failed after the file was opened.
\<close>

theorem store_failure_yields_fallback:
  assumes miss: "load_from_cache w (get_cache_key env (prompt_of env t ci s)) = Inr v" "\<not> truthy v"
    and chat: "ollama_chat env (length (chat_calls w)) m (prompt_of env t ci s) = Inr content"
    and unsaved: "cache_write_error env (cache_file_of (get_cache_key env (prompt_of env t ci s))) = Some f"
  shows "generate_description_with_ollama env w t ci s m =
       ((case f of
           Open_fails e \<Rightarrow> w\<lparr>chat_calls := chat_calls w @ [(m, prompt_of env t ci s)]\<rparr>
         | Dump_fails e \<Rightarrow>
             w\<lparr>chat_calls := chat_calls w @ [(m, prompt_of env t ci s)],
               cache_files := (cache_files w)
                 (cache_file_of (get_cache_key env (prompt_of env t ci s)) \<mapsto> Truncated)\<rparr>),
        Inr (PStr (fallback_text t ci (str_of_error (error_of f)))))"
proof (cases f)
  case (Open_fails e)
  then show ?thesis using generate_miss_unopened [OF miss chat] unsaved by simp
next
  case (Dump_fails e)
  then show ?thesis using generate_miss_truncated [OF miss chat] unsaved by simp
qed

theorem store_failure_yields_fallback_witness:
  "generate_description_with_ollama (demo_env chat_ok read_only) empty_world
        ''stores'' demo_column [''STORE-A'', ''STORE-B''] ''llama3'' =
     (empty_world\<lparr>chat_calls :=
         [(''llama3'', prompt_of (demo_env chat_ok read_only) ''stores'' demo_column [''STORE-A'', ''STORE-B''])]\<rparr>,
      Inr (PStr (fallback_text ''stores'' demo_column ''Permission denied''))) \<and>
   generate_description_with_ollama (demo_env chat_ok disk_full) empty_world
        ''stores'' demo_column [''STORE-A'', ''STORE-B''] ''llama3'' =
     (empty_world\<lparr>chat_calls :=
         [(''llama3'', prompt_of (demo_env chat_ok disk_full) ''stores'' demo_column [''STORE-A'', ''STORE-B''])],
        cache_files := [demo_key \<mapsto> Truncated]\<rparr>,
      Inr (PStr (fallback_text ''stores'' demo_column ''No space left on device'')))"
proof -
  let ?ro = "demo_env chat_ok read_only"
  let ?df = "demo_env chat_ok disk_full"
  let ?pr = "prompt_of ?ro ''stores'' demo_column [''STORE-A'', ''STORE-B'']"
  let ?pd = "prompt_of ?df ''stores'' demo_column [''STORE-A'', ''STORE-B'']"
  have miss_r: "load_from_cache empty_world (get_cache_key ?ro ?pr) = Inr PNone" "\<not> truthy PNone"
    by (simp_all add: load_from_cache_def empty_world_def)
  have miss_d: "load_from_cache empty_world (get_cache_key ?df ?pd) = Inr PNone"
    by (simp add: load_from_cache_def empty_world_def)
  have chat_r: "ollama_chat ?ro (length (chat_calls empty_world)) ''llama3'' ?pr = Inr demo_response"
    by (simp add: chat_ok_def)
  have chat_d: "ollama_chat ?df (length (chat_calls empty_world)) ''llama3'' ?pd = Inr demo_response"
    by (simp add: chat_ok_def)
  have unsaved_r: "cache_write_error ?ro (cache_file_of (get_cache_key ?ro ?pr)) =
      Some (Open_fails (OSError ''Permission denied''))"
    by (simp add: read_only_def)
  have unsaved_d: "cache_write_error ?df (cache_file_of (get_cache_key ?df ?pd)) =
      Some (Dump_fails (OSError ''No space left on device''))"
    by (simp add: disk_full_def)
  show ?thesis
    using store_failure_yields_fallback [OF miss_r chat_r unsaved_r]
      store_failure_yields_fallback [OF miss_d miss_r(2) chat_d unsaved_d]
    by (simp add: empty_world_def)
qed

text \<open>
  The claim as stated fails: the service answers with four sections, the disk is full,
  and the run returns the fallback text, which is not the generated description; the
  entry it leaves is the truncated file, on which the next lookup raises.
\<close>

theorem store_failure_discards_description_counterexample:
  "ollama_chat (demo_env chat_ok disk_full) 0 ''llama3''
       (prompt_of (demo_env chat_ok disk_full) ''stores'' demo_column [''STORE-A'', ''STORE-B'']) =
     Inr demo_response \<and>
   snd (generate_description_with_ollama (demo_env chat_ok disk_full) empty_world
        ''stores'' demo_column [''STORE-A'', ''STORE-B''] ''llama3'') =
     Inr (PStr (fallback_text ''stores'' demo_column ''No space left on device'')) \<and>
   snd (generate_description_with_ollama (demo_env chat_ok disk_full) empty_world
        ''stores'' demo_column [''STORE-A'', ''STORE-B''] ''llama3'') \<noteq>
     Inr (PStr (strip demo_response)) \<and>
   load_from_cache
     (fst (generate_description_with_ollama (demo_env chat_ok disk_full) empty_world
        ''stores'' demo_column [''STORE-A'', ''STORE-B''] ''llama3''))
     (get_cache_key (demo_env chat_ok disk_full)
        (prompt_of (demo_env chat_ok disk_full) ''stores'' demo_column [''STORE-A'', ''STORE-B''])) =
     Inl (EOFError ''Ran out of input'')"
  by (simp add: generate_description_with_ollama_def Let_def load_from_cache_def save_to_cache_def
      empty_world_def chat_ok_def disk_full_def strip_demo_response fallback_text_def)

section \<open>The model is not part of the key\<close>

text \<open>
  Claim C9, as amended. The prompt, and so the cache key, is built from the table name,
  the column metadata and the samples only. When a run with model \<open>m1\<close> misses, its call
  succeeds with text that is not blank and the store succeeds, a second run on the same
  table name, metadata and samples with any model \<open>m2\<close> returns the response of \<open>m1\<close>
  from the cache and leaves the state as it is: the call log still holds the one call,
  made with \<open>m1\<close>.
\<close>

theorem other_model_served_from_cache:
  assumes miss: "load_from_cache w (get_cache_key env (prompt_of env t ci s)) = Inr v" "\<not> truthy v"
    and chat: "ollama_chat env (length (chat_calls w)) m1 (prompt_of env t ci s) = Inr content"
    and nonblank: "strip content \<noteq> []"
    and stored: "cache_write_error env (cache_file_of (get_cache_key env (prompt_of env t ci s))) = None"
  shows "\<exists>w1.
     generate_description_with_ollama env w t ci s m1 = (w1, Inr (PStr (strip content))) \<and>
     generate_description_with_ollama env w1 t ci s m2 = (w1, Inr (PStr (strip content))) \<and>
     chat_calls w1 = chat_calls w @ [(m1, prompt_of env t ci s)]"
proof -
  let ?k = "get_cache_key env (prompt_of env t ci s)"
  let ?w1 = "w\<lparr>chat_calls := chat_calls w @ [(m1, prompt_of env t ci s)],
          cache_files := (cache_files w)(cache_file_of ?k \<mapsto> Pickled (PStr (strip content)))\<rparr>"
  have r1: "generate_description_with_ollama env w t ci s m1 = (?w1, Inr (PStr (strip content)))"
    using miss chat stored by (rule generate_miss_saved)
  have "load_from_cache ?w1 ?k = Inr (PStr (strip content))"
    by (rule load_after_save)
  then have r2: "generate_description_with_ollama env ?w1 t ci s m2 = (?w1, Inr (PStr (strip content)))"
    using nonblank by (simp add: generate_hit)
  have "chat_calls ?w1 = chat_calls w @ [(m1, prompt_of env t ci s)]" by simp
  with r1 r2 show ?thesis by blast
qed

theorem other_model_served_from_cache_witness:
  "\<exists>w1.
     generate_description_with_ollama (demo_env chat_ok writable) empty_world
        ''stores'' demo_column [''STORE-A'', ''STORE-B''] ''llama3'' =
       (w1, Inr (PStr (strip demo_response))) \<and>
     generate_description_with_ollama (demo_env chat_ok writable) w1
        ''stores'' demo_column [''STORE-A'', ''STORE-B''] ''mistral'' =
       (w1, Inr (PStr (strip demo_response))) \<and>
     chat_calls w1 =
       [(''llama3'', prompt_of (demo_env chat_ok writable) ''stores'' demo_column [''STORE-A'', ''STORE-B''])]"
proof -
  let ?env = "demo_env chat_ok writable"
  let ?p = "prompt_of ?env ''stores'' demo_column [''STORE-A'', ''STORE-B'']"
  have miss: "load_from_cache empty_world (get_cache_key ?env ?p) = Inr PNone" "\<not> truthy PNone"
    by (simp_all add: load_from_cache_def empty_world_def)
  have chat: "ollama_chat ?env (length (chat_calls empty_world)) ''llama3'' ?p = Inr demo_response"
    by (simp add: chat_ok_def)
  have nonblank: "strip demo_response \<noteq> []"
    by (simp add: strip_demo_response)
  have stored: "cache_write_error ?env (cache_file_of (get_cache_key ?env ?p)) = None"
    by (simp add: writable_def)
  show ?thesis
    using other_model_served_from_cache [OF miss chat nonblank stored, of "''mistral''"]
    by (simp add: empty_world_def)
qed

text \<open>
  The claim as stated fails: the service answers the first model with blank text, the
  empty string is stored under the key, and the run with the second model takes it for
  a miss and calls the service with the second model.
\<close>

theorem other_model_calls_again_counterexample:
  "cache_files (fst (generate_description_with_ollama (demo_env chat_blank writable) empty_world
        ''stores'' demo_column [''STORE-A'', ''STORE-B''] ''llama3'')) demo_key = Some (Pickled (PStr [])) \<and>
   chat_calls (fst (generate_description_with_ollama (demo_env chat_blank writable)
     (fst (generate_description_with_ollama (demo_env chat_blank writable) empty_world
        ''stores'' demo_column [''STORE-A'', ''STORE-B''] ''llama3''))
     ''stores'' demo_column [''STORE-A'', ''STORE-B''] ''mistral'')) =
     [(''llama3'', prompt_of (demo_env chat_blank writable) ''stores'' demo_column [''STORE-A'', ''STORE-B'']),
      (''mistral'', prompt_of (demo_env chat_blank writable) ''stores'' demo_column [''STORE-A'', ''STORE-B''])]"
  by (simp add: generate_description_with_ollama_def Let_def load_from_cache_def save_to_cache_def
      empty_world_def chat_blank_def writable_def)

section \<open>A falsy entry counts as a miss\<close>

text \<open>
  Claim C10. When the file under the prompt's key holds the empty string, or any other
  falsy value, the run takes the lookup for a miss and calls the generation service with
  its model and prompt, although the entry is in the store. This holds in every state,
  so on every call that finds such an entry.
\<close>

theorem falsy_entry_is_a_miss:
  assumes "cache_files w (cache_file_of (get_cache_key env (prompt_of env t ci s))) = Some (Pickled v)"
    and "\<not> truthy v"
  shows "chat_calls (fst (generate_description_with_ollama env w t ci s m)) =
           chat_calls w @ [(m, prompt_of env t ci s)]"
proof -
  have l: "load_from_cache w (get_cache_key env (prompt_of env t ci s)) = Inr v"
    using assms(1) by (simp add: load_from_cache_def)
  show ?thesis
  proof (cases "ollama_chat env (length (chat_calls w)) m (prompt_of env t ci s)")
    case (Inl e)
    then show ?thesis using l assms(2) by (simp add: generate_miss_failed)
  next
    case (Inr content)
    show ?thesis
    proof (cases "cache_write_error env (cache_file_of (get_cache_key env (prompt_of env t ci s)))")
      case None
      then show ?thesis using l assms(2) Inr by (simp add: generate_miss_saved)
    next
      case (Some f)
      then show ?thesis
        using l assms(2) Inr
        by (cases f) (simp_all add: generate_miss_unopened generate_miss_truncated)
    qed
  qed
qed

theorem falsy_entry_is_a_miss_witness:
  "cache_files (world_with (Pickled (PStr []))) demo_key = Some (Pickled (PStr [])) \<and>
   chat_calls (fst (generate_description_with_ollama (demo_env chat_ok writable)
        (world_with (Pickled (PStr []))) ''stores'' demo_column [''STORE-A'', ''STORE-B''] ''llama3'')) =
     [(''llama3'', prompt_of (demo_env chat_ok writable) ''stores'' demo_column [''STORE-A'', ''STORE-B''])]"
proof -
  let ?env = "demo_env chat_ok writable"
  let ?p = "prompt_of ?env ''stores'' demo_column [''STORE-A'', ''STORE-B'']"
  have e: "cache_files (world_with (Pickled (PStr []))) (cache_file_of (get_cache_key ?env ?p)) =
      Some (Pickled (PStr []))"
    by (simp add: world_with_def)
  have f: "\<not> truthy (PStr [])" by simp
  show ?thesis
    using falsy_entry_is_a_miss [OF e f, of "''llama3''"]
    by (simp add: world_with_def)
qed

section \<open>The result of a table\<close>

lemma parse_structured:
  "parse_markdown_description d = Inr sd \<Longrightarrow> structured_description sd"
proof (cases d)
  case (PStr x)
  assume "parse_markdown_description d = Inr sd"
  then show ?thesis
    unfolding PStr parse_markdown_description_eq structured_description_def by blast
qed simp_all

lemma describe_columns_records:
  "describe_columns env w t m acc cols = (w', Inr recs) \<Longrightarrow>
     \<exists>new. recs = acc @ new \<and> list_all2 column_record cols new"
proof (induction cols arbitrary: w acc)
  case Nil
  then show ?case by simp
next
  case (Cons col cols)
  obtain w1 r1 where g: "generate_description_with_ollama env w t
      (column_info_metadata col) (sample_values_of col) m = (w1, r1)"
    by (cases "generate_description_with_ollama env w t
      (column_info_metadata col) (sample_values_of col) m") auto
  from Cons.prems g obtain d where d: "r1 = Inr d"
    by (cases r1) auto
  from Cons.prems g d obtain sd where sd: "parse_markdown_description d = Inr sd"
    by (cases "parse_markdown_description d") auto
  let ?r = "PDict [(''column_name'', PStr (series_name col)), (''column_desc'', PList [sd])]"
  from Cons.prems g d sd
  have "describe_columns env w1 t m (acc @ [?r]) cols = (w', Inr recs)"
    by simp
  from Cons.IH [OF this] obtain new where
    new: "recs = (acc @ [?r]) @ new" "list_all2 column_record cols new"
    by blast
  have "column_record col ?r"
    using parse_structured [OF sd] by (auto simp: column_record_def)
  with new have "recs = acc @ (?r # new) \<and> list_all2 column_record (col # cols) (?r # new)"
    by simp
  then show ?case by blast
qed

text \<open>
  Claim C7, as amended. Every result that is not the empty mapping maps the table name
  to a list with one record per column of the frame, in the frame's order; each record
  is a dictionary with the key \<^verbatim>\<open>column_name\<close>, bound to the column's name, and
  the key \<^verbatim>\<open>column_desc\<close>, bound to a list of exactly one dictionary with the four
  description fields.
\<close>

theorem result_shape:
  assumes "generate_descriptions_from_csv env w csv_file_path model = (w', r)"
    and "r \<noteq> PDict []"
  shows "\<exists>df recs.
     read_csv env csv_file_path = Inr df \<and>
     r = PDict [(table_name_of csv_file_path, PList recs)] \<and>
     list_all2 column_record df recs"
proof -
  from assms have ex: "path_exists env csv_file_path"
    by (auto simp: generate_descriptions_from_csv_def split: if_splits)
  from assms ex obtain df where df: "read_csv env csv_file_path = Inr df"
    by (cases "read_csv env csv_file_path") (auto simp: generate_descriptions_from_csv_def)
  obtain w1 r1 where dc: "describe_columns env w (table_name_of csv_file_path) model [] df = (w1, r1)"
    by (cases "describe_columns env w (table_name_of csv_file_path) model [] df") auto
  from assms ex df dc obtain recs where recs: "r1 = Inr recs"
    by (cases r1) (auto simp: generate_descriptions_from_csv_def Let_def)
  from assms ex df dc recs have r: "r = PDict [(table_name_of csv_file_path, PList recs)]"
    by (auto simp: generate_descriptions_from_csv_def Let_def)
  from describe_columns_records [of env w _ model "[]" df w1 recs] dc recs
  have "list_all2 column_record df recs" by auto
  with df r show ?thesis by blast
qed

text \<open>
  Claim C8. When the source path does not exist, when it exists and cannot be read, and
  when an exception is raised while the columns are processed, the result is the empty
  mapping. The function has no other way out: its \<^verbatim>\<open>except Exception\<close> clause
  returns the empty mapping for every exception of the body.
\<close>

theorem failure_gives_empty_mapping:
  assumes "\<not> path_exists env csv_file_path \<or>
           (\<exists>e. read_csv env csv_file_path = Inl e) \<or>
           (\<exists>df w1 e. read_csv env csv_file_path = Inr df \<and>
              describe_columns env w (table_name_of csv_file_path) model [] df = (w1, Inl e))"
  shows "snd (generate_descriptions_from_csv env w csv_file_path model) = PDict []"
  using assms by (auto simp: generate_descriptions_from_csv_def Let_def)


lemma demo_table_name: "table_name_of ''data/stores.csv'' = ''stores''"
  by (simp add: table_name_of_def splitext_root_def basename_def Let_def)

lemma demo_parse:
  "parse_markdown_description (PStr (strip demo_response)) =
     Inr (PDict [(''business_purpose'', PStr ''Identifies the store.''),
                 (''data_quality_rules'', PStr ''Never empty.''),
                 (''example_usage'', PStr ''Sales by store.''),
                 (''issues'', PStr ''None known.'')])"
  by code_simp

lemma demo_run:
  "snd (generate_descriptions_from_csv (demo_env chat_ok writable) empty_world
         ''data/stores.csv'' ''llama3'') =
     PDict [(''stores'',
       PList [PDict [(''column_name'', PStr ''StoreID''),
                     (''column_desc'',
                        PList [PDict [(''business_purpose'', PStr ''Identifies the store.''),
                                      (''data_quality_rules'', PStr ''Never empty.''),
                                      (''example_usage'', PStr ''Sales by store.''),
                                      (''issues'', PStr ''None known.'')]])]])]"
  by (simp add: generate_descriptions_from_csv_def demo_exists_def demo_read_csv_def demo_frame_def
      demo_table_name Let_def generate_description_with_ollama_def load_from_cache_def
      empty_world_def chat_ok_def save_to_cache_def writable_def demo_parse
      del: parse_markdown_description.simps)

theorem result_shape_witness:
  "\<exists>df recs.
     read_csv (demo_env chat_ok writable) ''data/stores.csv'' = Inr df \<and>
     snd (generate_descriptions_from_csv (demo_env chat_ok writable) empty_world
            ''data/stores.csv'' ''llama3'') =
       PDict [(table_name_of ''data/stores.csv'', PList recs)] \<and>
     list_all2 column_record df recs"
proof -
  have ne: "snd (generate_descriptions_from_csv (demo_env chat_ok writable) empty_world
            ''data/stores.csv'' ''llama3'') \<noteq> PDict []"
    by (simp add: demo_run)
  show ?thesis
    using result_shape [OF prod.collapse [symmetric] ne] .
qed

text \<open>
  The claim as stated fails on the name of the key: the record of the store column has
  the keys \<^verbatim>\<open>column_name\<close> and \<^verbatim>\<open>column_desc\<close>, and no key
  \<^verbatim>\<open>descriptions\<close>.
\<close>

theorem descriptions_key_counterexample:
  "snd (generate_descriptions_from_csv (demo_env chat_ok writable) empty_world
         ''data/stores.csv'' ''llama3'') =
     PDict [(''stores'',
       PList [PDict [(''column_name'', PStr ''StoreID''),
                     (''column_desc'',
                        PList [PDict [(''business_purpose'', PStr ''Identifies the store.''),
                                      (''data_quality_rules'', PStr ''Never empty.''),
                                      (''example_usage'', PStr ''Sales by store.''),
                                      (''issues'', PStr ''None known.'')]])]])] \<and>
   dict_get (PDict [(''column_name'', PStr ''StoreID''),
                    (''column_desc'',
                        PList [PDict [(''business_purpose'', PStr ''Identifies the store.''),
                                      (''data_quality_rules'', PStr ''Never empty.''),
                                      (''example_usage'', PStr ''Sales by store.''),
                                      (''issues'', PStr ''None known.'')]])])
     ''descriptions'' = None"
  by (simp add: demo_run)

theorem failure_gives_empty_mapping_witness:
  "snd (generate_descriptions_from_csv (demo_env chat_ok writable) empty_world
         ''data/missing.csv'' ''llama3'') = PDict [] \<and>
   snd (generate_descriptions_from_csv (demo_env chat_ok writable) empty_world
         ''data/broken.csv'' ''llama3'') = PDict [] \<and>
   snd (generate_descriptions_from_csv (demo_env chat_ok writable) (world_with (Unreadable ''Permission denied''))
         ''data/stores.csv'' ''llama3'') = PDict []"
proof -
  let ?env = "demo_env chat_ok writable"
  have a: "\<not> path_exists ?env ''data/missing.csv''"
    by (simp add: demo_exists_def)
  have b: "\<exists>e. read_csv ?env ''data/broken.csv'' = Inl e"
    by (simp add: demo_read_csv_def)
  have c: "\<exists>df w1 e. read_csv ?env ''data/stores.csv'' = Inr df \<and>
      describe_columns ?env (world_with (Unreadable ''Permission denied''))
        (table_name_of ''data/stores.csv'') ''llama3'' [] df = (w1, Inl e)"
    by (simp add: demo_read_csv_def demo_frame_def generate_description_with_ollama_def Let_def
        load_from_cache_def world_with_def)
  show ?thesis
    using failure_gives_empty_mapping [of ?env "''data/missing.csv''" empty_world "''llama3''"]
      failure_gives_empty_mapping [of ?env "''data/broken.csv''" empty_world "''llama3''"]
      failure_gives_empty_mapping [of ?env "''data/stores.csv''" "world_with (Unreadable ''Permission denied'')" "''llama3''"]
      a b c
    by blast
qed

section \<open>A cache entry that cannot be loaded\<close>

lemma load_raises_iff_broken:
  "(\<exists>e. load_from_cache w k = Inl e) \<longleftrightarrow> broken w (cache_file_of k)"
  by (auto simp: load_from_cache_def broken_def split: option.splits cache_file.splits)

lemma generate_broken:
  assumes "broken w (cache_file_of (get_cache_key env (prompt_of env t ci s)))"
  shows "\<exists>e. generate_description_with_ollama env w t ci s m = (w, Inl e)"
proof -
  from assms obtain e where "load_from_cache w (get_cache_key env (prompt_of env t ci s)) = Inl e"
    using load_raises_iff_broken by blast
  then show ?thesis by (auto simp: generate_raises)
qed

lemma generate_returns_not_broken:
  assumes "generate_description_with_ollama env w t ci s m = (w', Inr d)"
  shows "\<not> broken w (cache_file_of (get_cache_key env (prompt_of env t ci s)))"
  using assms generate_broken [of w env t ci s m] by auto

lemma generate_keeps_broken:
  assumes "generate_description_with_ollama env w t ci s m = (w', r)" and "broken w p"
  shows "broken w' p"
proof (cases "load_from_cache w (get_cache_key env (prompt_of env t ci s))")
  case (Inl e)
  then show ?thesis using assms by (simp add: generate_raises)
next
  case (Inr v)
  have nb: "\<not> broken w (cache_file_of (get_cache_key env (prompt_of env t ci s)))"
  proof
    assume "broken w (cache_file_of (get_cache_key env (prompt_of env t ci s)))"
    then obtain e where "load_from_cache w (get_cache_key env (prompt_of env t ci s)) = Inl e"
      using load_raises_iff_broken by blast
    with Inr show False by simp
  qed
  then have ne: "p \<noteq> cache_file_of (get_cache_key env (prompt_of env t ci s))"
    using assms(2) by auto
  show ?thesis
    using assms Inr ne
    by (auto simp: generate_description_with_ollama_def Let_def save_to_cache_def broken_def
        split: if_splits sum.splits option.splits write_failure.splits)
qed

lemma describe_columns_broken:
  assumes "col \<in> set cols" and "broken w (cache_file_for env t col)"
  shows "\<exists>w' e. describe_columns env w t m acc cols = (w', Inl e)"
  using assms
proof (induction cols arbitrary: w acc)
  case Nil
  then show ?case by simp
next
  case (Cons c cols)
  obtain w1 r1 where g: "generate_description_with_ollama env w t
      (column_info_metadata c) (sample_values_of c) m = (w1, r1)"
    by (cases "generate_description_with_ollama env w t
      (column_info_metadata c) (sample_values_of c) m") auto
  show ?case
  proof (cases r1)
    case (Inl e)
    then show ?thesis using g by simp
  next
    case (Inr d)
    have "\<not> broken w (cache_file_for env t c)"
      using generate_returns_not_broken g Inr unfolding cache_file_for_def by blast
    then have mem: "col \<in> set cols" using Cons.prems by auto
    have br: "broken w1 (cache_file_for env t col)"
      using generate_keeps_broken [OF g Cons.prems(2)] .
    show ?thesis
    proof (cases "parse_markdown_description d")
      case (Inl e)
      then show ?thesis using g Inr by simp
    next
      case (Inr sd)
      from Cons.IH [OF mem br] obtain w' e where
        "describe_columns env w1 t m
           (acc @ [PDict [(''column_name'', PStr (series_name c)), (''column_desc'', PList [sd])]])
           cols = (w', Inl e)"
        by blast
      then show ?thesis using g \<open>r1 = Inr d\<close> Inr by simp
    qed
  qed
qed

text \<open>
  Claim C3, as amended. When the cache file of a column of the table is corrupt or
  unreadable, the lookup for that column raises: on the state the table starts from, the
  generation step for the column returns the exception and leaves the state as it is,
  with no call to the generation service; and the table-level handler turns the
  exception into the empty mapping, so no exception reaches the caller, but the table
  is not described.
\<close>

theorem broken_entry_gives_empty_mapping:
  assumes "path_exists env csv_file_path"
    and "read_csv env csv_file_path = Inr df"
    and "col \<in> set df"
    and "broken w (cache_file_for env (table_name_of csv_file_path) col)"
  shows "(\<exists>e. generate_description_with_ollama env w (table_name_of csv_file_path)
              (column_info_metadata col) (sample_values_of col) model = (w, Inl e)) \<and>
         snd (generate_descriptions_from_csv env w csv_file_path model) = PDict []"
proof
  show "\<exists>e. generate_description_with_ollama env w (table_name_of csv_file_path)
              (column_info_metadata col) (sample_values_of col) model = (w, Inl e)"
    using assms(4) unfolding cache_file_for_def by (rule generate_broken)
next
  obtain w' e where "describe_columns env w (table_name_of csv_file_path) model [] df = (w', Inl e)"
    using describe_columns_broken [OF assms(3,4)] by blast
  then show "snd (generate_descriptions_from_csv env w csv_file_path model) = PDict []"
    using assms(1,2) by (simp add: generate_descriptions_from_csv_def Let_def)
qed

theorem broken_entry_gives_empty_mapping_witness:
  "broken (world_with (Corrupt ''invalid load key'')) demo_key \<and>
   generate_description_with_ollama (demo_env chat_ok writable) (world_with (Corrupt ''invalid load key''))
       (table_name_of ''data/stores.csv'') (column_info_metadata (hd demo_frame))
       (sample_values_of (hd demo_frame)) ''llama3'' =
     (world_with (Corrupt ''invalid load key''), Inl (UnpicklingError ''invalid load key'')) \<and>
   snd (generate_descriptions_from_csv (demo_env chat_ok writable)
       (world_with (Corrupt ''invalid load key'')) ''data/stores.csv'' ''llama3'') = PDict []"
proof -
  let ?env = "demo_env chat_ok writable"
  let ?w = "world_with (Corrupt ''invalid load key'')"
  have a: "path_exists ?env ''data/stores.csv''" by (simp add: demo_exists_def)
  have b: "read_csv ?env ''data/stores.csv'' = Inr demo_frame" by (simp add: demo_read_csv_def)
  have c: "hd demo_frame \<in> set demo_frame" by (simp add: demo_frame_def)
  have d: "broken ?w (cache_file_for ?env (table_name_of ''data/stores.csv'') (hd demo_frame))"
    by (simp add: cache_file_for_def broken_def world_with_def)
  have l: "load_from_cache ?w k = Inl (UnpicklingError ''invalid load key'')"
    if "cache_file_of k = demo_key" for k
    using that by (simp add: load_from_cache_def world_with_def)
  show ?thesis
    using broken_entry_gives_empty_mapping [OF a b c d, of "''llama3''"] d
    by (auto simp: cache_file_for_def generate_raises l)
qed

text \<open>
  The claim as stated fails: with the cache file of the store column corrupt, the table
  comes back as the empty mapping and the service was never called, while on a miss the
  same table is described.
\<close>

theorem corrupt_entry_is_not_a_miss_counterexample:
  "fst (generate_descriptions_from_csv (demo_env chat_ok writable)
       (world_with (Corrupt ''invalid load key'')) ''data/stores.csv'' ''llama3'') =
     world_with (Corrupt ''invalid load key'') \<and>
   chat_calls (world_with (Corrupt ''invalid load key'')) = [] \<and>
   snd (generate_descriptions_from_csv (demo_env chat_ok writable)
       (world_with (Corrupt ''invalid load key'')) ''data/stores.csv'' ''llama3'') = PDict [] \<and>
   snd (generate_descriptions_from_csv (demo_env chat_ok writable)
       empty_world ''data/stores.csv'' ''llama3'') \<noteq> PDict []"
proof -
  have a: "generate_descriptions_from_csv (demo_env chat_ok writable)
       (world_with (Corrupt ''invalid load key'')) ''data/stores.csv'' ''llama3'' =
     (world_with (Corrupt ''invalid load key''), PDict [])"
    by (simp add: generate_descriptions_from_csv_def demo_exists_def demo_read_csv_def
        demo_frame_def Let_def generate_description_with_ollama_def load_from_cache_def
        world_with_def)
  have b: "snd (generate_descriptions_from_csv (demo_env chat_ok writable)
       empty_world ''data/stores.csv'' ''llama3'') \<noteq> PDict []"
    by (simp add: demo_run)
  show ?thesis using a b by (simp add: world_with_def)
qed

section \<open>Lemmas: labels in a text\<close>

lemma lit_prefix_self: "lit_prefix l (l @ s) = Some s"
  by (induction l) auto

lemma lit_prefix_split:
  "lit_prefix l s = Some r \<Longrightarrow> \<exists>x. s = x @ r \<and> length x = length l"
proof (induction l s rule: lit_prefix.induct)
  case (1 s)
  then show ?case by simp
next
  case (2 p ps)
  then show ?case by simp
next
  case (3 p ps c cs)
  then have "lit_prefix ps cs = Some r" by (simp split: if_splits)
  from 3(1) [OF _ this] 3(2) obtain x where "cs = x @ r" "length x = length ps"
    by (auto split: if_splits)
  then have "c # cs = (c # x) @ r \<and> length (c # x) = length (p # ps)" by simp
  then show ?case by blast
qed

lemma label_at_Some:
  "label_at ls s = Some r \<Longrightarrow> \<exists>l \<in> set ls. lit_prefix l s = Some r"
  by (induction ls) (auto split: option.splits)

lemma find_label_label_at: "label_at ls s = Some r \<Longrightarrow> find_label ls s = Some r"
  by (cases s) auto

lemma find_label_finds:
  assumes "\<forall>l' \<in> set (l # ls). length l' \<le> length l"
  shows "\<exists>rest. find_label (l # ls) (pre @ l @ suf) = Some rest \<and> suffix suf rest"
proof (induction pre)
  case Nil
  have "label_at (l # ls) (l @ suf) = Some suf" by (simp add: lit_prefix_self)
  then have "find_label (l # ls) (l @ suf) = Some suf" by (rule find_label_label_at)
  then show ?case by simp
next
  case (Cons c pre)
  let ?text = "c # pre @ l @ suf"
  show ?case
  proof (cases "label_at (l # ls) ?text")
    case None
    then show ?thesis using Cons.IH by simp
  next
    case (Some rest)
    then obtain l' where l': "l' \<in> set (l # ls)" "lit_prefix l' ?text = Some rest"
      using label_at_Some by blast
    then obtain x where x: "?text = x @ rest" "length x = length l'"
      using lit_prefix_split by blast
    have "length l' \<le> length l" using assms l'(1) by blast
    moreover have "length ?text = length x + length rest" using x(1) by (metis length_append)
    ultimately have len: "length suf \<le> length rest" using x(2) by simp
    have s1: "suffix rest ?text" using x(1) by (metis suffixI)
    have s2: "suffix suf ?text" by (metis append_Cons append_assoc suffixI)
    have "suffix suf rest" using s2 s1 len by (rule suffix_length_suffix)
    then show ?thesis using Some by simp
  qed
qed

lemma lazy_capture_Cons: "c \<noteq> CHR ''\<newline>'' \<Longrightarrow> lazy_capture (c # s) = c # lazy_capture s"
  by (cases s) auto

lemma py_isspace_nl [simp]: "py_isspace CHR ''\<newline>''"
  by (simp add: py_isspace_def)

lemma section_capture_nonempty:
  assumes "\<exists>c \<in> set rest. \<not> py_isspace c"
  shows "strip (section_capture rest) \<noteq> []"
proof -
  have "dropWhile py_isspace rest \<noteq> []" using assms by (simp add: dropWhile_eq_Nil_conv)
  then obtain y ys where d: "dropWhile py_isspace rest = y # ys" by (cases "dropWhile py_isspace rest") auto
  then have y: "\<not> py_isspace y" by (metis hd_dropWhile list.sel(1) list.distinct(1))
  then have "y \<noteq> CHR ''\<newline>''" by auto
  then have "lazy_capture (y # ys) = y # lazy_capture ys" by (rule lazy_capture_Cons)
  then have "section_capture rest = y # lazy_capture ys"
    using d by (simp add: section_capture_def del: lazy_capture.simps)
  then show ?thesis using strip_Cons_nonspace [OF y, of "lazy_capture ys"] by auto
qed

lemma section_value_present:
  assumes "\<forall>l' \<in> set (l # ls). length l' \<le> length l" and "\<exists>c \<in> set suf. \<not> py_isspace c"
  shows "label_occurs (l # ls) (pre @ l @ suf) \<and> section_value (l # ls) (pre @ l @ suf) \<noteq> []"
proof -
  obtain rest where r: "find_label (l # ls) (pre @ l @ suf) = Some rest" "suffix suf rest"
    using find_label_finds [OF assms(1)] by blast
  have "set suf \<subseteq> set rest" using r(2) by (rule set_mono_suffix)
  then have "\<exists>c \<in> set rest. \<not> py_isspace c" using assms(2) by blast
  then have "strip (section_capture rest) \<noteq> []" by (rule section_capture_nonempty)
  moreover have "label_occurs (l # ls) (pre @ l @ suf)"
    using r(1) find_label_None [of "l # ls" "pre @ l @ suf"] by simp
  ultimately show ?thesis using r(1) by (simp add: section_value_def)
qed


lemma nonspace_second: "\<not> py_isspace c \<Longrightarrow> \<exists>x \<in> set (a # c # s). \<not> py_isspace x"
  by simp

lemma present_from_eq:
  assumes "f = pre @ l @ (a # c # rest)" and "\<not> py_isspace c"
    and "\<forall>l' \<in> set (l # ls). length l' \<le> length l"
  shows "label_occurs (l # ls) f \<and> section_value (l # ls) f \<noteq> []"
  unfolding assms(1)
  by (rule section_value_present [OF assms(3)]) (use assms(2) in simp)

lemma fallback_populated: "populated (fallback_text t ci cause)"
proof -
  let ?f = "fallback_text t ci cause"
  have a0: "label_occurs business_purpose_labels ?f \<and> section_value business_purpose_labels ?f \<noteq> []"
    unfolding business_purpose_labels_def
    by (rule present_from_eq [where pre = "''- ''" and a = "CHR '' ''" and c = "CHR ''C''"
          and rest = "''ould not determine purpose for '' @ column_name ci @ ''.\<newline>'' @
     ''- **Data Quality Rules**: Must conform to data type '' @ data_type ci @ ''.\<newline>'' @
     ''- **Example Usage**: Used for general analysis within the '' @ t @ '' table.\<newline>'' @
     ''- **Known Issues/Limitations**: LLM description generation failed: '' @ cause"])
      (simp_all add: fallback_text_def py_isspace_def)
  have a1: "label_occurs data_quality_rules_labels ?f \<and> section_value data_quality_rules_labels ?f \<noteq> []"
    unfolding data_quality_rules_labels_def
    by (rule present_from_eq [where
          pre = "''- **Business Purpose**: Could not determine purpose for '' @ column_name ci @ ''.\<newline>- ''"
          and a = "CHR '' ''" and c = "CHR ''M''"
          and rest = "''ust conform to data type '' @ data_type ci @ ''.\<newline>'' @
     ''- **Example Usage**: Used for general analysis within the '' @ t @ '' table.\<newline>'' @
     ''- **Known Issues/Limitations**: LLM description generation failed: '' @ cause"])
      (simp_all add: fallback_text_def py_isspace_def)
  have a2: "label_occurs example_usage_labels ?f \<and> section_value example_usage_labels ?f \<noteq> []"
    unfolding example_usage_labels_def
    by (rule present_from_eq [where
          pre = "''- **Business Purpose**: Could not determine purpose for '' @ column_name ci @ ''.\<newline>'' @
     ''- **Data Quality Rules**: Must conform to data type '' @ data_type ci @ ''.\<newline>- ''"
          and a = "CHR '' ''" and c = "CHR ''U''"
          and rest = "''sed for general analysis within the '' @ t @ '' table.\<newline>'' @
     ''- **Known Issues/Limitations**: LLM description generation failed: '' @ cause"])
      (simp_all add: fallback_text_def py_isspace_def)
  have a3: "label_occurs issues_labels ?f \<and> section_value issues_labels ?f \<noteq> []"
    unfolding issues_labels_def
    by (rule present_from_eq [where
          pre = "''- **Business Purpose**: Could not determine purpose for '' @ column_name ci @ ''.\<newline>'' @
     ''- **Data Quality Rules**: Must conform to data type '' @ data_type ci @ ''.\<newline>'' @
     ''- **Example Usage**: Used for general analysis within the '' @ t @ '' table.\<newline>- ''"
          and a = "CHR '' ''" and c = "CHR ''L''"
          and rest = "''LM description generation failed: '' @ cause"])
      (simp_all add: fallback_text_def py_isspace_def)
  show ?thesis using a0 a1 a2 a3 by (simp add: populated_def)
qed


lemma ascii_lower_eq_star: "(CHR ''*'' = ascii_lower c) = (c = CHR ''*'')"
proof -
  have "(CHR ''*'' = ascii_lower c) =
          ((of_char (CHR ''*'') :: nat) = of_char (ascii_lower c))"
    by (simp only: of_char_eq_iff)
  also have "\<dots> = (of_char c = (42::nat))"
    by (simp add: of_char_ascii_lower)
  also have "\<dots> = ((of_char c :: nat) = of_char (CHR ''*''))"
    by simp
  also have "\<dots> = (c = CHR ''*'')"
    by (simp only: of_char_eq_iff)
  finally show ?thesis .
qed

lemma ascii_lower_star: "ascii_lower CHR ''*'' = CHR ''*''"
  by (simp add: ascii_lower_def)

lemma issues_skip_char:
  "c \<noteq> CHR ''*'' \<Longrightarrow> find_label issues_labels (c # s) = find_label issues_labels s"
  by (simp add: issues_labels_def ascii_lower_star ascii_lower_eq_star)

lemma issues_skip_star:
  "c \<noteq> CHR ''*'' \<Longrightarrow>
     find_label issues_labels (CHR ''*'' # c # s) = find_label issues_labels s"
  by (simp add: issues_labels_def ascii_lower_star ascii_lower_eq_star)

lemma issues_skip_stars:
  assumes "CHR ''k'' \<noteq> ascii_lower c" and "CHR ''i'' \<noteq> ascii_lower c"
  shows "find_label issues_labels (CHR ''*'' # CHR ''*'' # c # s) =
         find_label issues_labels (CHR ''*'' # c # s)"
proof -
  have k: "ascii_lower CHR ''K'' = CHR ''k''" "ascii_lower CHR ''I'' = CHR ''i''"
    by (simp_all add: ascii_lower_def char_of_def bit_0 bit_Suc)
  show ?thesis
    using assms by (simp add: issues_labels_def ascii_lower_star k)
qed

lemma issues_skip_text:
  "CHR ''*'' \<notin> set x \<Longrightarrow> find_label issues_labels (x @ r) = find_label issues_labels r"
proof (induction x)
  case Nil
  show ?case by simp
next
  case (Cons a x)
  then have "a \<noteq> CHR ''*''" and "CHR ''*'' \<notin> set x" by auto
  then show ?case using Cons.IH issues_skip_char [of a "x @ r"] by simp
qed

lemma issues_found:
  "find_label issues_labels (''**Known Issues/Limitations**:'' @ r) = Some r"
  by (rule find_label_label_at) (simp only: issues_labels_def label_at.simps lit_prefix_self option.case)

lemmas issues_found_chars = issues_found [unfolded append.simps]

lemma fallback_issues_rest:
  assumes "CHR ''*'' \<notin> set (column_name ci)" "CHR ''*'' \<notin> set (data_type ci)" "CHR ''*'' \<notin> set t"
  shows "find_label issues_labels (fallback_text t ci cause) =
           Some ('' LLM description generation failed: '' @ cause)"
  using assms
  by (simp add: fallback_text_def issues_skip_char issues_skip_star issues_skip_stars
      issues_skip_text issues_found_chars ascii_lower_def char_of_def bit_0 bit_Suc
      del: find_label.simps)

section \<open>A service that always fails\<close>

lemma parse_fields_of: "parse_markdown_description (PStr d) = Inr (fields_of d)"
  unfolding fields_of_def by (rule parse_markdown_description_eq)

lemma misses_load:
  "misses w (cache_file_of k) \<Longrightarrow> \<exists>v. load_from_cache w k = Inr v \<and> \<not> truthy v"
  by (auto simp: misses_def load_from_cache_def split: option.splits cache_file.splits)

lemma misses_chat_calls [simp]: "misses (w\<lparr>chat_calls := cs\<rparr>) p = misses w p"
  by (simp add: misses_def)

lemma loadable_chat_calls [simp]: "loadable (w\<lparr>chat_calls := cs\<rparr>) p = loadable w p"
  by (simp add: loadable_def)

lemma described_chat_calls [simp]:
  "described_without_service env (w\<lparr>chat_calls := cs\<rparr>) t col r =
   described_without_service env w t col r"
  by (simp add: described_without_service_def)

lemma loadable_hit:
  assumes "loadable w (cache_file_of k)" and "\<not> misses w (cache_file_of k)"
  shows "\<exists>d. cache_files w (cache_file_of k) = Some (Pickled (PStr d)) \<and>
             load_from_cache w k = Inr (PStr d) \<and> truthy (PStr d)"
  using assms
  by (auto simp: loadable_def misses_def load_from_cache_def
      split: option.splits cache_file.splits pyval.splits)

lemma describe_columns_without_service:
  assumes down: "\<forall>i m p. \<exists>e. ollama_chat env i m p = Inl e"
    and ok: "\<forall>col \<in> set cols. loadable w (cache_file_for env t col)"
  shows "\<exists>w' new. describe_columns env w t model acc cols = (w', Inr (acc @ new)) \<and>
           list_all2 (described_without_service env w t) cols new"
  using ok
proof (induction cols arbitrary: w acc)
  case Nil
  then show ?case by simp
next
  case (Cons col cols)
  let ?ci = "column_info_metadata col"
  let ?s = "sample_values_of col"
  let ?p = "prompt_of env t ?ci ?s"
  have "\<exists>w1 d. generate_description_with_ollama env w t ?ci ?s model = (w1, Inr (PStr d)) \<and>
      (\<exists>cs. w1 = w\<lparr>chat_calls := cs\<rparr>) \<and>
      described_without_service env w t col (record_of col d)"
  proof (cases "misses w (cache_file_for env t col)")
    case True
    then obtain v where v: "load_from_cache w (get_cache_key env ?p) = Inr v" "\<not> truthy v"
      using misses_load [of w "get_cache_key env ?p"] by (auto simp: cache_file_for_def)
    obtain e where e: "ollama_chat env (length (chat_calls w)) model ?p = Inl e"
      using down by blast
    have "fallback_record t col (record_of col (fallback_text t ?ci (str_of_error e)))"
      using fallback_populated by (auto simp: fallback_record_def)
    then show ?thesis
      using generate_miss_failed [OF v e] True
      by (auto simp: described_without_service_def)
  next
    case False
    have "loadable w (cache_file_for env t col)" using Cons.prems by simp
    then obtain d where d: "cache_files w (cache_file_for env t col) = Some (Pickled (PStr d))"
      "load_from_cache w (get_cache_key env ?p) = Inr (PStr d)" "truthy (PStr d)"
      using loadable_hit False unfolding cache_file_for_def by blast
    have "generate_description_with_ollama env w t ?ci ?s model = (w, Inr (PStr d))"
      using d(2,3) by (rule generate_hit)
    moreover have "\<exists>cs. w = w\<lparr>chat_calls := cs\<rparr>"
      by (rule exI [of _ "chat_calls w"]) simp
    moreover have "described_without_service env w t col (record_of col d)"
      using d(1) False by (simp add: described_without_service_def)
    ultimately show ?thesis by blast
  qed
  then obtain w1 d cs where g:
    "generate_description_with_ollama env w t ?ci ?s model = (w1, Inr (PStr d))"
    "w1 = w\<lparr>chat_calls := cs\<rparr>"
    "described_without_service env w t col (record_of col d)"
    by blast
  have ok1: "\<forall>c \<in> set cols. loadable w1 (cache_file_for env t c)"
    using Cons.prems g(2) by simp
  obtain w' new where new:
    "describe_columns env w1 t model (acc @ [record_of col d]) cols =
       (w', Inr ((acc @ [record_of col d]) @ new))"
    "list_all2 (described_without_service env w1 t) cols new"
    using Cons.IH [OF ok1] by blast
  have "describe_columns env w t model acc (col # cols) = (w', Inr (acc @ (record_of col d # new)))"
    using g(1) new(1) by (simp add: parse_fields_of record_of_def del: parse_markdown_description.simps)
  moreover have "list_all2 (described_without_service env w t) (col # cols) (record_of col d # new)"
  proof -
    have "described_without_service env w1 t = described_without_service env w t"
      using g(2) by (auto simp: fun_eq_iff)
    then show ?thesis using g(3) new(2) by simp
  qed
  ultimately show ?case by blast
qed

text \<open>
  Claim C5, as amended. When the generation service fails on every call and the cache
  file of every column is loadable, every column of the table gets its record, in order: the column's
  name and a list of exactly one description with the four fields. For a column whose
  lookup misses, the description is the extraction of the fallback text for that column:
  each of the four labels is found in it and each of the four fields is a non-empty
  string, whatever the column name, the type, the table name and the cause are. For a
  column whose lookup hits, it is the extraction of the cached text. The result is the
  mapping of the table name to these records, so nothing was raised.
\<close>

theorem failing_service_still_describes:
  assumes "\<forall>i m p. \<exists>e. ollama_chat env i m p = Inl e"
    and "path_exists env csv_file_path"
    and "read_csv env csv_file_path = Inr df"
    and "\<forall>col \<in> set df. loadable w (cache_file_for env (table_name_of csv_file_path) col)"
  shows "\<exists>recs.
     snd (generate_descriptions_from_csv env w csv_file_path model) =
       PDict [(table_name_of csv_file_path, PList recs)] \<and>
     list_all2 column_record df recs \<and>
     list_all2 (described_without_service env w (table_name_of csv_file_path)) df recs"
proof -
  obtain w' new where n:
    "describe_columns env w (table_name_of csv_file_path) model [] df = (w', Inr ([] @ new))"
    "list_all2 (described_without_service env w (table_name_of csv_file_path)) df new"
    using describe_columns_without_service [OF assms(1,4)] by blast
  have "list_all2 column_record df new"
    using describe_columns_records [OF n(1)] by simp
  then show ?thesis
    using n assms(2,3) by (auto simp: generate_descriptions_from_csv_def Let_def)
qed

lemma demo_cache_file_for [simp]:
  "cache_file_for (demo_env chat werr) t col = demo_key"
  by (simp add: cache_file_for_def)

theorem failing_service_still_describes_witness:
  "snd (generate_descriptions_from_csv (demo_env chat_down writable) empty_world
         ''data/stores.csv'' ''llama3'') =
     PDict [(''stores'',
       PList [PDict [(''column_name'', PStr ''StoreID''),
                     (''column_desc'',
                        PList [PDict [(''business_purpose'', PStr ''Could not determine purpose for StoreID.''),
                                      (''data_quality_rules'', PStr ''Must conform to data type object.''),
                                      (''example_usage'', PStr ''Used for general analysis within the stores table.''),
                                      (''issues'', PStr ''LLM description generation failed: connection refused'')]])]])] \<and>
   (\<exists>recs.
      snd (generate_descriptions_from_csv (demo_env chat_down writable) empty_world
         ''data/stores.csv'' ''llama3'') = PDict [(table_name_of ''data/stores.csv'', PList recs)] \<and>
      list_all2 column_record demo_frame recs \<and>
      list_all2 (described_without_service (demo_env chat_down writable) empty_world
                   (table_name_of ''data/stores.csv'')) demo_frame recs)"
proof -
  let ?env = "demo_env chat_down writable"
  have down: "\<forall>i m p. \<exists>e. ollama_chat ?env i m p = Inl e"
    by (simp add: chat_down_def)
  have ex: "path_exists ?env ''data/stores.csv''" by (simp add: demo_exists_def)
  have rd: "read_csv ?env ''data/stores.csv'' = Inr demo_frame" by (simp add: demo_read_csv_def)
  have miss: "\<forall>col \<in> set demo_frame.
      loadable empty_world (cache_file_for ?env (table_name_of ''data/stores.csv'') col)"
    by (simp add: loadable_def empty_world_def)
  have p: "parse_markdown_description
      (PStr (fallback_text ''stores''
         \<lparr>column_name = ''StoreID'', data_type = ''object'', is_nullable = ''NO''\<rparr>
         ''connection refused'')) =
     Inr (PDict [(''business_purpose'', PStr ''Could not determine purpose for StoreID.''),
                 (''data_quality_rules'', PStr ''Must conform to data type object.''),
                 (''example_usage'', PStr ''Used for general analysis within the stores table.''),
                 (''issues'', PStr ''LLM description generation failed: connection refused'')])"
    by code_simp
  have run: "snd (generate_descriptions_from_csv ?env empty_world ''data/stores.csv'' ''llama3'') =
     PDict [(''stores'',
       PList [PDict [(''column_name'', PStr ''StoreID''),
                     (''column_desc'',
                        PList [PDict [(''business_purpose'', PStr ''Could not determine purpose for StoreID.''),
                                      (''data_quality_rules'', PStr ''Must conform to data type object.''),
                                      (''example_usage'', PStr ''Used for general analysis within the stores table.''),
                                      (''issues'', PStr ''LLM description generation failed: connection refused'')]])]])]"
    by (simp add: generate_descriptions_from_csv_def demo_exists_def demo_read_csv_def demo_frame_def
        demo_table_name Let_def generate_description_with_ollama_def load_from_cache_def
        empty_world_def chat_down_def column_info_metadata_def p
        del: parse_markdown_description.simps)
  show ?thesis
    using failing_service_still_describes [OF down ex rd miss, of "''llama3''"] run
    by simp
qed


lemma parse_cached_text:
  "parse_markdown_description (PStr ''cached text'') =
     Inr (PDict [(''business_purpose'', PStr ''N/A''), (''data_quality_rules'', PStr ''N/A''),
                 (''example_usage'', PStr ''N/A''), (''issues'', PStr ''N/A'')])"
  by code_simp

text \<open>
  The claim as stated fails: with the service out of reach, a corrupt cache file of the
  store column gives the empty mapping, with no record at all, and a cached text without
  sections gives a description whose four fields are the sentinel, not fallback content.
\<close>

theorem failing_service_other_outcomes_counterexample:
  "snd (generate_descriptions_from_csv (demo_env chat_down writable)
         (world_with (Corrupt ''invalid load key'')) ''data/stores.csv'' ''llama3'') = PDict [] \<and>
   snd (generate_descriptions_from_csv (demo_env chat_down writable)
         (world_with (Pickled (PStr ''cached text''))) ''data/stores.csv'' ''llama3'') =
     PDict [(''stores'',
       PList [PDict [(''column_name'', PStr ''StoreID''),
                     (''column_desc'',
                        PList [PDict [(''business_purpose'', PStr ''N/A''),
                                      (''data_quality_rules'', PStr ''N/A''),
                                      (''example_usage'', PStr ''N/A''),
                                      (''issues'', PStr ''N/A'')]])]])]"
  by (simp add: generate_descriptions_from_csv_def demo_exists_def demo_read_csv_def demo_frame_def
      demo_table_name Let_def generate_description_with_ollama_def load_from_cache_def
      world_with_def parse_cached_text del: parse_markdown_description.simps)

lemma fallback_issues_capture:
  "section_capture ('' LLM description generation failed: '' @ cause) =
     ''LLM description generation failed: '' @ lazy_capture cause"
  by (simp add: section_capture_def py_isspace_def lazy_capture_Cons del: lazy_capture.simps)

lemma fallback_issues_value:
  assumes "CHR ''*'' \<notin> set (column_name ci)" "CHR ''*'' \<notin> set (data_type ci)" "CHR ''*'' \<notin> set t"
  shows "section_value issues_labels (fallback_text t ci cause) =
           strip (''LLM description generation failed: '' @ lazy_capture cause)"
  unfolding section_value_def fallback_issues_rest [OF assms] option.case fallback_issues_capture ..

section \<open>What the fallback text says\<close>

text \<open>
  Claim C6, as amended. For every column on which the lookup misses and the generation
  call fails, the text returned is the fallback text, a function of the table name, the
  column name, the declared type and the cause alone. It states the declared type and
  does not depend on the nullability. When the column name, the type and the table name
  hold no asterisk, the \<^verbatim>\<open>issues\<close> field extracted from it is the stripped text
  \<^verbatim>\<open>LLM description generation failed:\<close> followed by the cause up to its first section
  boundary.
\<close>

theorem fallback_states_type_and_cause:
  assumes miss: "load_from_cache w (get_cache_key env (prompt_of env t ci s)) = Inr v" "\<not> truthy v"
    and failed: "ollama_chat env (length (chat_calls w)) m (prompt_of env t ci s) = Inl e"
    and plain: "CHR ''*'' \<notin> set (column_name ci)" "CHR ''*'' \<notin> set (data_type ci)"
      "CHR ''*'' \<notin> set t"
  shows "snd (generate_description_with_ollama env w t ci s m) =
           Inr (PStr (fallback_text t ci (str_of_error e))) \<and>
         fallback_text t (ci\<lparr>is_nullable := n\<rparr>) (str_of_error e) =
           fallback_text t ci (str_of_error e) \<and>
         (\<exists>pre post. fallback_text t ci (str_of_error e) =
            pre @ ''Must conform to data type '' @ data_type ci @ ''.'' @ post) \<and>
         (\<exists>sd. parse_markdown_description (PStr (fallback_text t ci (str_of_error e))) = Inr sd \<and>
            dict_get sd ''issues'' =
              Some (PStr (strip (''LLM description generation failed: '' @
                                   lazy_capture (str_of_error e)))))"
proof (intro conjI)
  show "snd (generate_description_with_ollama env w t ci s m) =
           Inr (PStr (fallback_text t ci (str_of_error e)))"
    using generate_miss_failed [OF miss failed] by simp
next
  show "fallback_text t (ci\<lparr>is_nullable := n\<rparr>) (str_of_error e) =
           fallback_text t ci (str_of_error e)"
    by (simp add: fallback_text_def)
next
  have "fallback_text t ci (str_of_error e) =
      (''- **Business Purpose**: Could not determine purpose for '' @ column_name ci @
         ''.\<newline>- **Data Quality Rules**: '') @
      ''Must conform to data type '' @ data_type ci @ ''.'' @
      (''\<newline>- **Example Usage**: Used for general analysis within the '' @ t @ '' table.\<newline>'' @
       ''- **Known Issues/Limitations**: LLM description generation failed: '' @ str_of_error e)"
    by (simp add: fallback_text_def)
  then show "\<exists>pre post. fallback_text t ci (str_of_error e) =
            pre @ ''Must conform to data type '' @ data_type ci @ ''.'' @ post"
    by blast
next
  have "dict_get (fields_of (fallback_text t ci (str_of_error e))) ''issues'' =
      Some (PStr (strip (''LLM description generation failed: '' @ lazy_capture (str_of_error e))))"
    by (simp add: fields_of_def fallback_issues_value [OF plain])
  then show "\<exists>sd. parse_markdown_description (PStr (fallback_text t ci (str_of_error e))) = Inr sd \<and>
            dict_get sd ''issues'' =
              Some (PStr (strip (''LLM description generation failed: '' @
                                   lazy_capture (str_of_error e))))"
    using parse_fields_of by blast
qed


theorem fallback_states_type_and_cause_witness:
  "snd (generate_description_with_ollama (demo_env chat_down writable) empty_world
        ''stores'' demo_column [''STORE-A'', ''STORE-B''] ''llama3'') =
     Inr (PStr (fallback_text ''stores'' demo_column ''connection refused'')) \<and>
   fallback_text ''stores'' (demo_column\<lparr>is_nullable := ''YES''\<rparr>) ''connection refused'' =
     fallback_text ''stores'' demo_column ''connection refused'' \<and>
   (\<exists>sd. parse_markdown_description
           (PStr (fallback_text ''stores'' demo_column ''connection refused'')) = Inr sd \<and>
      dict_get sd ''issues'' =
        Some (PStr ''LLM description generation failed: connection refused''))"
proof -
  let ?env = "demo_env chat_down writable"
  let ?p = "prompt_of ?env ''stores'' demo_column [''STORE-A'', ''STORE-B'']"
  have miss: "load_from_cache empty_world (get_cache_key ?env ?p) = Inr PNone" "\<not> truthy PNone"
    by (simp_all add: load_from_cache_def empty_world_def)
  have failed: "ollama_chat ?env (length (chat_calls empty_world)) ''llama3'' ?p =
      Inl (ChatError ''connection refused'')"
    by (simp add: chat_down_def)
  have plain: "CHR ''*'' \<notin> set (column_name demo_column)"
    "CHR ''*'' \<notin> set (data_type demo_column)" "CHR ''*'' \<notin> set ''stores''"
    by (simp_all add: demo_column_def)
  have v: "strip (''LLM description generation failed: '' @ lazy_capture ''connection refused'') =
      ''LLM description generation failed: connection refused''"
    by code_simp
  have v': "strip ''LLM description generation failed: connection refused'' =
      ''LLM description generation failed: connection refused''"
    by code_simp
  show ?thesis
    using fallback_states_type_and_cause [OF miss failed plain, of "''YES''"]
    by (simp add: v v' del: parse_markdown_description.simps)
qed

text \<open>
  The claim as stated fails: the fallback text of the store column is the same for a
  nullable and a non-nullable column and names no nullability; and for a column whose
  name holds an issues label, the \<^verbatim>\<open>issues\<close> field is cut from the first line of the
  fallback text and says nothing of the failure.
\<close>

theorem fallback_omits_nullability_counterexample:
  "fallback_text ''stores''
       \<lparr>column_name = ''StoreID'', data_type = ''object'', is_nullable = ''YES''\<rparr>
       ''connection refused'' =
     ''- **Business Purpose**: Could not determine purpose for StoreID.\<newline>- **Data Quality Rules**: Must conform to data type object.\<newline>- **Example Usage**: Used for general analysis within the stores table.\<newline>- **Known Issues/Limitations**: LLM description generation failed: connection refused'' \<and>
   fallback_text ''stores''
       \<lparr>column_name = ''StoreID'', data_type = ''object'', is_nullable = ''NO''\<rparr>
       ''connection refused'' =
     ''- **Business Purpose**: Could not determine purpose for StoreID.\<newline>- **Data Quality Rules**: Must conform to data type object.\<newline>- **Example Usage**: Used for general analysis within the stores table.\<newline>- **Known Issues/Limitations**: LLM description generation failed: connection refused'' \<and>
   parse_markdown_description
       (PStr (fallback_text ''stores''
          \<lparr>column_name = ''**Issues**: none'', data_type = ''object'', is_nullable = ''NO''\<rparr>
          ''connection refused'')) =
     Inr (PDict [(''business_purpose'', PStr ''Could not determine purpose for **Issues**: none.''),
                 (''data_quality_rules'', PStr ''Must conform to data type object.''),
                 (''example_usage'', PStr ''Used for general analysis within the stores table.''),
                 (''issues'', PStr ''none.'')])"
proof (intro conjI)
  show "parse_markdown_description
       (PStr (fallback_text ''stores''
          \<lparr>column_name = ''**Issues**: none'', data_type = ''object'', is_nullable = ''NO''\<rparr>
          ''connection refused'')) =
     Inr (PDict [(''business_purpose'', PStr ''Could not determine purpose for **Issues**: none.''),
                 (''data_quality_rules'', PStr ''Must conform to data type object.''),
                 (''example_usage'', PStr ''Used for general analysis within the stores table.''),
                 (''issues'', PStr ''none.'')])"
    by code_simp
qed (simp_all add: fallback_text_def)

end
